theory Spec2Isabelle
  imports Main
begin

section \<open>The multiplayer relay server (multiplayer-server.js)\<close>

text \<open>
  The server keeps one module-level \<open>Map\<close> from game ids to game objects, tags every
  WebSocket object with an extra field \<open>_chessRole\<close>, and reacts to three transport events:
  \<open>connection\<close>, \<open>message\<close> and \<open>close\<close>. Each handler runs to completion before the next
  one starts, so the program is a step function on one state: the map, the socket objects
  and the log of the frames handed to \<open>ws.send\<close>.
\<close>

subsection \<open>Values that cross the wire\<close>

text \<open>
  What \<open>JSON.parse\<close> can return. Numbers are only ever tested for truthiness and compared
  with strings, so an integer stands for the number. The value \<open>undefined\<close> of a missing
  property is \<open>None\<close> of \<open>json option\<close>.
\<close>

datatype json =
    JNull
  | JBool bool
  | JNum int
  | JStr string
  | JArr "json list"
  | JObj "(string \<times> json) list"

text \<open>The outcome of \<open>JSON.parse(data.toString())\<close>: a \<open>SyntaxError\<close> or a value.\<close>

datatype data = SyntaxError | Parsed json

text \<open>JavaScript truthiness of a parsed value, and of a possibly missing property.\<close>

fun truthy :: "json \<Rightarrow> bool" where
  "truthy JNull = False"
| "truthy (JBool x) = x"
| "truthy (JNum n) = (n \<noteq> 0)"
| "truthy (JStr s) = (s \<noteq> [])"
| "truthy (JArr xs) = True"
| "truthy (JObj kvs) = True"

fun truthy_opt :: "json option \<Rightarrow> bool" where
  "truthy_opt None = False"
| "truthy_opt (Some v) = truthy v"

text \<open>
  Reading one of the properties \<open>type\<close>, \<open>gameId\<close>, \<open>from\<close>, \<open>to\<close>, \<open>promotion\<close> of a
  non-null parsed value. An object parsed from JSON keeps the last of several equal keys;
  a boolean, number, string or array has none of these five properties.
\<close>

fun get_prop :: "string \<Rightarrow> json \<Rightarrow> json option" where
  "get_prop k (JObj kvs) = map_of (rev kvs) k"
| "get_prop k v = None"

datatype color = W | B

datatype ready_state = CONNECTING | OPEN | CLOSING | CLOSED

type_synonym ws = nat

text \<open>The frames the server writes, one constructor for each \<open>type\<close> string.\<close>

datatype 'mv payload =
    Connected string
  | Game_created string color string
  | Game_joined string color string
  | Opponent_joined string color
  | Move_made string string 'mv color bool bool bool
  | Error string

subsection \<open>The rules engine\<close>

text \<open>
  Modelled from the spec: the \<open>Chess\<close> class of the package \<open>chess.js\<close> is not part of the
  repository. The spec treats it as a pure function
  \<open>applyMove(state, move) -> newState | rejected\<close> together with the queries \<open>turn\<close>,
  \<open>isGameOver\<close> and so on; a rejected or faulting call leaves the position as it was. The
  engine is a parameter of every handler below: \<open>new_chess\<close> is \<open>new Chess()\<close>, \<open>move\<close>
  takes the position and the fields \<open>from\<close>, \<open>to\<close>, \<open>promotion\<close> of the move object.
\<close>

datatype ('c, 'mv) move_result =
    Moved 'mv 'c
  | Null
  | Threw

record ('c, 'mv) engine =
  new_chess :: 'c
  fen :: "'c \<Rightarrow> string"
  turn :: "'c \<Rightarrow> color"
  move :: "'c \<Rightarrow> json option \<Rightarrow> json option \<Rightarrow> json \<Rightarrow> ('c, 'mv) move_result"
  isGameOver :: "'c \<Rightarrow> bool"
  isCheckmate :: "'c \<Rightarrow> bool"
  isDraw :: "'c \<Rightarrow> bool"

subsection \<open>The state\<close>

record role =
  gameId :: string
  color :: color

record socket =
  chessRole :: "role option"
  readyState :: ready_state

record players =
  w :: "ws option"
  b :: "ws option"

record 'c game =
  chess :: 'c
  players :: players
  createdAt :: nat

text \<open>
  \<open>games\<close> is the module-level \<open>Map\<close>; \<open>sockets\<close> is the store of the WebSocket objects,
  addressed by their identity; \<open>outbox\<close> lists the calls of \<open>ws.send\<close> in order.
\<close>

record ('c, 'mv) server =
  games :: "string \<rightharpoonup> 'c game"
  sockets :: "ws \<Rightarrow> socket"
  outbox :: "(ws \<times> 'mv payload) list"

text \<open>What the handlers read from outside: the draws of \<open>Math.random\<close>, already scaled
  and floored, and the clock.\<close>

record env =
  random :: "nat \<Rightarrow> nat"
  now :: nat

definition slot :: "color \<Rightarrow> players \<Rightarrow> ws option" where
  "slot c p = (case c of W \<Rightarrow> w p | B \<Rightarrow> b p)"

definition set_slot :: "color \<Rightarrow> ws option \<Rightarrow> players \<Rightarrow> players" where
  "set_slot c x p = (case c of W \<Rightarrow> p\<lparr>w := x\<rparr> | B \<Rightarrow> p\<lparr>b := x\<rparr>)"

subsection \<open>generateGameId, safeSend\<close>

definition chars :: string where
  "chars = ''ABCDEFGHJKLMNPQRSTUVWXYZ23456789''"

text \<open>
  \<open>chars[k]\<close> appended to a string: an index past the end reads \<open>undefined\<close>, which the
  concatenation turns into the text \<open>undefined\<close>.
\<close>

definition char_at :: "nat \<Rightarrow> string" where
  "char_at k = (if k < length chars then [chars ! k] else ''undefined'')"

text \<open>The loop \<open>for (let i = 0; i < 6; i++)\<close>, with \<open>n\<close> the iterations still to run.\<close>

fun generateGameId_loop :: "(nat \<Rightarrow> nat) \<Rightarrow> nat \<Rightarrow> nat \<Rightarrow> string \<Rightarrow> string" where
  "generateGameId_loop rnd i 0 ident = ident"
| "generateGameId_loop rnd i (Suc n) ident =
     generateGameId_loop rnd (Suc i) n (ident @ char_at (rnd i))"

definition generateGameId :: "(nat \<Rightarrow> nat) \<Rightarrow> string" where
  "generateGameId rnd = generateGameId_loop rnd 0 6 []"

definition safeSend :: "ws option \<Rightarrow> 'mv payload \<Rightarrow> ('c, 'mv) server \<Rightarrow> ('c, 'mv) server" where
  "safeSend x p s =
     (case x of
        None \<Rightarrow> s
      | Some c \<Rightarrow>
          if readyState (sockets s c) = OPEN then s\<lparr>outbox := outbox s @ [(c, p)]\<rparr> else s)"

subsection \<open>createGame, joinGame\<close>

definition set_role :: "ws \<Rightarrow> role \<Rightarrow> ('c, 'mv) server \<Rightarrow> ('c, 'mv) server" where
  "set_role c r s = s\<lparr>sockets := (sockets s)(c := (sockets s c)\<lparr>chessRole := Some r\<rparr>)\<rparr>"

definition createGame ::
  "('c, 'mv) engine \<Rightarrow> env \<Rightarrow> ws \<Rightarrow> ('c, 'mv) server \<Rightarrow> ('c, 'mv) server" where
  "createGame E e c s =
     (let gid = generateGameId (random e);
          ch = new_chess E;
          game = \<lparr>chess = ch, players = \<lparr>w = Some c, b = None\<rparr>, createdAt = now e\<rparr>;
          s1 = s\<lparr>games := (games s)(gid \<mapsto> game)\<rparr>;
          s2 = set_role c \<lparr>gameId = gid, color = W\<rparr> s1
      in safeSend (Some c) (Game_created gid W (fen E ch)) s2)"

text \<open>\<open>games.get(key)\<close> for a key that came off the wire: the map holds string keys only.\<close>

fun games_get :: "('c, 'mv) server \<Rightarrow> json option \<Rightarrow> (string \<times> 'c game) option" where
  "games_get s (Some (JStr g)) = (case games s g of None \<Rightarrow> None | Some game \<Rightarrow> Some (g, game))"
| "games_get s v = None"

definition opposite :: "color \<Rightarrow> color" where
  "opposite c = (if c = W then B else W)"

text \<open>The part of \<open>joinGame\<close> after a seat was chosen and written into \<open>game.players\<close>.\<close>

definition joined ::
  "('c, 'mv) engine \<Rightarrow> ws \<Rightarrow> string \<Rightarrow> 'c game \<Rightarrow> color \<Rightarrow> ('c, 'mv) server \<Rightarrow> ('c, 'mv) server" where
  "joined E c g game col s =
     (let game1 = game\<lparr>players := set_slot col (Some c) (players game)\<rparr>;
          s1 = s\<lparr>games := (games s)(g \<mapsto> game1)\<rparr>;
          s2 = set_role c \<lparr>gameId = g, color = col\<rparr> s1;
          s3 = safeSend (Some c) (Game_joined g col (fen E (chess game1))) s2;
          opp = slot (opposite col) (players game1)
      in case opp of
           None \<Rightarrow> s3
         | Some x \<Rightarrow> safeSend (Some x) (Opponent_joined g col) s3)"

definition joinGame ::
  "('c, 'mv) engine \<Rightarrow> ws \<Rightarrow> json option \<Rightarrow> ('c, 'mv) server \<Rightarrow> ('c, 'mv) server" where
  "joinGame E c gid s =
     (case games_get s gid of
        None \<Rightarrow> safeSend (Some c) (Error ''Game not found'') s
      | Some (g, game) \<Rightarrow>
          if b (players game) = None then joined E c g game B s
          else if w (players game) = None then joined E c g game W s
          else safeSend (Some c) (Error ''Game already has two players'') s)"

subsection \<open>handleMove\<close>

text \<open>
  The \<open>try\<close> block: \<open>move\<close> either returns a move, returns nothing, or throws, and the
  \<open>catch\<close> answers a throw with \<open>Move error\<close>. The engine's queries and \<open>ws.send\<close> on
  an open socket are taken not to throw.
\<close>

definition handleMove ::
  "('c, 'mv) engine \<Rightarrow> ws \<Rightarrow> json option \<Rightarrow> json option \<Rightarrow> json option \<Rightarrow> json option \<Rightarrow>
   ('c, 'mv) server \<Rightarrow> ('c, 'mv) server" where
  "handleMove E c gid from_sq to_sq promotion s =
     (case games_get s gid of
        None \<Rightarrow> safeSend (Some c) (Error ''Game not found'') s
      | Some (g, game) \<Rightarrow>
          (case chessRole (sockets s c) of
             None \<Rightarrow> safeSend (Some c) (Error ''You are not part of this game'') s
           | Some r \<Rightarrow>
               if gameId r \<noteq> g then safeSend (Some c) (Error ''You are not part of this game'') s
               else if color r \<noteq> turn E (chess game) then safeSend (Some c) (Error ''Not your turn'') s
               else
                 (case move E (chess game) from_sq to_sq
                         (if truthy_opt promotion then the promotion else JStr ''q'') of
                    Threw \<Rightarrow> safeSend (Some c) (Error ''Move error'') s
                  | Null \<Rightarrow> safeSend (Some c) (Error ''Illegal move'') s
                  | Moved m ch \<Rightarrow>
                      (let s1 = s\<lparr>games := (games s)(g \<mapsto> game\<lparr>chess := ch\<rparr>)\<rparr>;
                           payload = Move_made g (fen E ch) m (turn E ch)
                                       (isGameOver E ch) (isCheckmate E ch) (isDraw E ch)
                       in safeSend (b (players game)) payload
                            (safeSend (w (players game)) payload s1)))))"

subsection \<open>cleanupConnection\<close>

definition cleanupConnection :: "ws \<Rightarrow> ('c, 'mv) server \<Rightarrow> ('c, 'mv) server" where
  "cleanupConnection c s =
     (case chessRole (sockets s c) of
        None \<Rightarrow> s
      | Some r \<Rightarrow>
          (case games s (gameId r) of
             None \<Rightarrow> s
           | Some game \<Rightarrow>
               (let p = (if slot (color r) (players game) = Some c
                         then set_slot (color r) None (players game)
                         else players game)
                in if w p = None \<and> b p = None
                   then s\<lparr>games := (games s)(gameId r := None)\<rparr>
                   else s\<lparr>games := (games s)(gameId r \<mapsto> game\<lparr>players := p\<rparr>)\<rparr>)))"

subsection \<open>The event handlers\<close>

datatype exn = TypeError

text \<open>
  The \<open>message\<close> listener. Destructuring \<open>const { type } = msg\<close> throws a \<open>TypeError\<close> when
  \<open>msg\<close> is \<open>null\<close>; nothing in the listener catches it. The \<open>switch\<close> compares with
  \<open>===\<close>, so only the three strings select a handler.
\<close>

definition on_message ::
  "('c, 'mv) engine \<Rightarrow> env \<Rightarrow> ws \<Rightarrow> data \<Rightarrow> ('c, 'mv) server \<Rightarrow> exn + ('c, 'mv) server" where
  "on_message E e c d s =
     (case d of
        SyntaxError \<Rightarrow> Inr (safeSend (Some c) (Error ''Invalid JSON'') s)
      | Parsed msg \<Rightarrow>
          if msg = JNull then Inl TypeError
          else
            (let ty = get_prop ''type'' msg in
             if ty = Some (JStr ''create_game'') then Inr (createGame E e c s)
             else if ty = Some (JStr ''join_game'') then
               (if \<not> truthy_opt (get_prop ''gameId'' msg)
                then Inr (safeSend (Some c) (Error ''Missing gameId'') s)
                else Inr (joinGame E c (get_prop ''gameId'' msg) s))
             else if ty = Some (JStr ''make_move'') then
               Inr (handleMove E c (get_prop ''gameId'' msg) (get_prop ''from'' msg) (get_prop ''to'' msg)
                      (get_prop ''promotion'' msg) s)
             else Inr (safeSend (Some c) (Error ''Unknown message type'') s)))"

definition on_close :: "ws \<Rightarrow> ('c, 'mv) server \<Rightarrow> ('c, 'mv) server" where
  "on_close c s = cleanupConnection c s"

definition on_connection :: "ws \<Rightarrow> ('c, 'mv) server \<Rightarrow> ('c, 'mv) server" where
  "on_connection c s =
     safeSend (Some c) (Connected ''Connected to Chess3 multiplayer server'') s"

subsection \<open>The transport's events\<close>

text \<open>
  The \<open>ws\<close> package owns the socket objects. It hands a new socket, already \<open>OPEN\<close>, to the
  \<open>connection\<close> listener; it delivers \<open>message\<close> events until the socket closes; it may
  start a closing handshake, which makes the socket \<open>CLOSING\<close>; and it fires \<open>close\<close> once,
  with the socket \<open>CLOSED\<close>. A socket identity that was never connected is \<open>CONNECTING\<close>
  and carries no \<open>_chessRole\<close>. An exception that leaves the \<open>message\<close> listener is caught
  by nobody: the run has no next state.
\<close>

datatype event = Connection ws | Message ws data | Closing ws | Close ws

definition set_readyState :: "ws \<Rightarrow> ready_state \<Rightarrow> ('c, 'mv) server \<Rightarrow> ('c, 'mv) server" where
  "set_readyState c r s = s\<lparr>sockets := (sockets s)(c := (sockets s c)\<lparr>readyState := r\<rparr>)\<rparr>"

definition init :: "('c, 'mv) server" where
  "init = \<lparr>games = Map.empty,
           sockets = (\<lambda>c. \<lparr>chessRole = None, readyState = CONNECTING\<rparr>),
           outbox = []\<rparr>"

fun step ::
  "('c, 'mv) engine \<Rightarrow> env \<Rightarrow> event \<Rightarrow> ('c, 'mv) server \<Rightarrow> ('c, 'mv) server option" where
  "step E e (Connection c) s =
     (if readyState (sockets s c) = CONNECTING
      then Some (on_connection c (set_readyState c OPEN s)) else None)"
| "step E e (Message c d) s =
     (if readyState (sockets s c) = OPEN \<or> readyState (sockets s c) = CLOSING
      then (case on_message E e c d s of Inl x \<Rightarrow> None | Inr s' \<Rightarrow> Some s') else None)"
| "step E e (Closing c) s =
     (if readyState (sockets s c) = OPEN then Some (set_readyState c CLOSING s) else None)"
| "step E e (Close c) s =
     (if readyState (sockets s c) = OPEN \<or> readyState (sockets s c) = CLOSING
      then Some (on_close c (set_readyState c CLOSED s)) else None)"

fun run ::
  "('c, 'mv) engine \<Rightarrow> (env \<times> event) list \<Rightarrow> ('c, 'mv) server \<Rightarrow> ('c, 'mv) server option" where
  "run E [] s = Some s"
| "run E ((e, ev) # evs) s = (case step E e ev s of None \<Rightarrow> None | Some s' \<Rightarrow> run E evs s')"

inductive reachable :: "('c, 'mv) engine \<Rightarrow> ('c, 'mv) server \<Rightarrow> bool" for E where
  reachable_init: "reachable E init"
| reachable_step: "reachable E s \<Longrightarrow> step E e ev s = Some s' \<Longrightarrow> reachable E s'"

subsection \<open>A small engine and some frames, for concrete runs\<close>

text \<open>
  A stand-in for the rules engine, used only to evaluate the handlers on concrete inputs:
  the position is the number of half-moves played, White moves at even counts, a move
  between two different squares given as strings is accepted, a move from a square to
  itself is rejected, and anything else makes the engine throw.
\<close>

definition toy_move :: "nat \<Rightarrow> json option \<Rightarrow> json option \<Rightarrow> json \<Rightarrow> (nat, string) move_result" where
  "toy_move n f t p =
     (case (f, t) of
        (Some (JStr x), Some (JStr y)) \<Rightarrow> if x = y then Null else Moved (x @ y) (Suc n)
      | _ \<Rightarrow> Threw)"

definition toy_engine :: "(nat, string) engine" where
  "toy_engine =
     \<lparr>new_chess = 0,
      fen = (\<lambda>n. replicate n CHR ''m''),
      turn = (\<lambda>n. if even n then W else B),
      move = toy_move,
      isGameOver = (\<lambda>n. False),
      isCheckmate = (\<lambda>n. False),
      isDraw = (\<lambda>n. False)\<rparr>"

text \<open>An environment whose every draw is \<open>k\<close>, and the three recognised frames.\<close>

definition env_const :: "nat \<Rightarrow> env" where
  "env_const k = \<lparr>random = (\<lambda>i. k), now = 0\<rparr>"

definition create_game :: data where
  "create_game = Parsed (JObj [(''type'', JStr ''create_game'')])"

definition join_game :: "string \<Rightarrow> data" where
  "join_game g = Parsed (JObj [(''type'', JStr ''join_game''), (''gameId'', JStr g)])"

definition make_move :: "string \<Rightarrow> string \<Rightarrow> string \<Rightarrow> data" where
  "make_move g x y =
     Parsed (JObj [(''type'', JStr ''make_move''), (''gameId'', JStr g),
                   (''from'', JStr x), (''to'', JStr y)])"

text \<open>
  Concrete runs from the initial state. Three connections open and connection 0 creates
  the game \<open>AAAAAA\<close> (\<open>lobby\<close>); connection 1 joins it (\<open>paired\<close>); then connection 0
  closes (\<open>vacated\<close>), or connection 1 starts closing (\<open>half_closed\<close>), or connection 0
  creates a second game \<open>BBBBBB\<close> (\<open>rebound\<close>) and both players close (\<open>stale\<close>). In
  \<open>collided\<close> connection 1 creates a game and draws the id \<open>AAAAAA\<close> again. In
  \<open>emptied\<close> the two players of \<open>paired\<close> close, White first; in \<open>emptied_rev\<close>, Black
  first (\<open>black_left\<close> is the state between its two closes). In \<open>reseated\<close>
  connection 2 joins \<open>vacated\<close> and takes the \<open>w\<close> slot that connection 0 left.
\<close>

definition trace_lobby :: "(env \<times> event) list" where
  "trace_lobby =
     [(env_const 0, Connection 0), (env_const 0, Connection 1), (env_const 0, Connection 2),
      (env_const 0, Message 0 create_game)]"

definition trace_paired :: "(env \<times> event) list" where
  "trace_paired = trace_lobby @ [(env_const 0, Message 1 (join_game ''AAAAAA''))]"

definition trace_vacated :: "(env \<times> event) list" where
  "trace_vacated = trace_paired @ [(env_const 0, Close 0)]"

definition trace_half_closed :: "(env \<times> event) list" where
  "trace_half_closed = trace_paired @ [(env_const 0, Closing 1)]"

definition trace_rebound :: "(env \<times> event) list" where
  "trace_rebound = trace_paired @ [(env_const 1, Message 0 create_game)]"

definition trace_stale :: "(env \<times> event) list" where
  "trace_stale = trace_rebound @ [(env_const 0, Close 0), (env_const 0, Close 1)]"

definition trace_collided :: "(env \<times> event) list" where
  "trace_collided = trace_lobby @ [(env_const 0, Message 1 create_game)]"

definition trace_emptied :: "(env \<times> event) list" where
  "trace_emptied = trace_vacated @ [(env_const 0, Close 1)]"

definition trace_black_left :: "(env \<times> event) list" where
  "trace_black_left = trace_paired @ [(env_const 0, Close 1)]"

definition trace_emptied_rev :: "(env \<times> event) list" where
  "trace_emptied_rev = trace_black_left @ [(env_const 0, Close 0)]"

definition trace_reseated :: "(env \<times> event) list" where
  "trace_reseated = trace_vacated @ [(env_const 0, Message 2 (join_game ''AAAAAA''))]"

definition lobby :: "(nat, string) server" where
  "lobby = the (run toy_engine trace_lobby init)"

definition paired :: "(nat, string) server" where
  "paired = the (run toy_engine trace_paired init)"

definition vacated :: "(nat, string) server" where
  "vacated = the (run toy_engine trace_vacated init)"

definition half_closed :: "(nat, string) server" where
  "half_closed = the (run toy_engine trace_half_closed init)"

definition rebound :: "(nat, string) server" where
  "rebound = the (run toy_engine trace_rebound init)"

definition stale :: "(nat, string) server" where
  "stale = the (run toy_engine trace_stale init)"

definition collided :: "(nat, string) server" where
  "collided = the (run toy_engine trace_collided init)"

definition emptied :: "(nat, string) server" where
  "emptied = the (run toy_engine trace_emptied init)"

definition black_left :: "(nat, string) server" where
  "black_left = the (run toy_engine trace_black_left init)"

definition emptied_rev :: "(nat, string) server" where
  "emptied_rev = the (run toy_engine trace_emptied_rev init)"

definition reseated :: "(nat, string) server" where
  "reseated = the (run toy_engine trace_reseated init)"

subsection \<open>The invariant of the map\<close>

text \<open>
  \<open>cleanupConnection\<close> deletes a session when \<open>!game.players.w && !game.players.b\<close>;
  \<open>seated\<close> says that no stored session is in that condition.
\<close>

definition seated :: "('c, 'mv) server \<Rightarrow> bool" where
  "seated s =
     (\<forall>g game. games s g = Some game \<longrightarrow> w (players game) \<noteq> None \<or> b (players game) \<noteq> None)"

section \<open>Properties\<close>

subsection \<open>What each handler does to the three parts of the state\<close>

lemma games_safeSend [simp]: "games (safeSend x p s) = games s"
  by (simp add: safeSend_def split: option.split)

lemma sockets_safeSend [simp]: "sockets (safeSend x p s) = sockets s"
  by (simp add: safeSend_def split: option.split)

lemma outbox_safeSend:
  "outbox (safeSend x p s) =
     outbox s @ (case x of None \<Rightarrow> []
                 | Some c \<Rightarrow> if readyState (sockets s c) = OPEN then [(c, p)] else [])"
  by (simp add: safeSend_def split: option.split)

lemma games_set_role [simp]: "games (set_role c r s) = games s"
  by (simp add: set_role_def)

lemma sockets_set_role:
  "sockets (set_role c r s) = (sockets s)(c := (sockets s c)\<lparr>chessRole := Some r\<rparr>)"
  by (simp add: set_role_def)

lemma games_set_readyState [simp]: "games (set_readyState c r s) = games s"
  by (simp add: set_readyState_def)

lemma chessRole_set_readyState [simp]:
  "chessRole (sockets (set_readyState c r s) x) = chessRole (sockets s x)"
  by (simp add: set_readyState_def)

lemma games_on_connection [simp]: "games (on_connection c s) = games s"
  by (simp add: on_connection_def)

lemma sockets_on_connection [simp]: "sockets (on_connection c s) = sockets s"
  by (simp add: on_connection_def)

lemma games_createGame:
  "games (createGame E e c s) =
     (games s)(generateGameId (random e) \<mapsto>
        \<lparr>chess = new_chess E, players = \<lparr>w = Some c, b = None\<rparr>, createdAt = now e\<rparr>)"
  by (simp add: createGame_def Let_def)

lemma sockets_createGame:
  "sockets (createGame E e c s) =
     (sockets s)(c := (sockets s c)
        \<lparr>chessRole := Some \<lparr>gameId = generateGameId (random e), color = W\<rparr>\<rparr>)"
  by (simp add: createGame_def Let_def sockets_set_role)

lemma games_joined:
  "games (joined E c g game col s) =
     (games s)(g \<mapsto> game\<lparr>players := set_slot col (Some c) (players game)\<rparr>)"
  by (simp add: joined_def Let_def split: option.split)

lemma sockets_joined:
  "sockets (joined E c g game col s) =
     (sockets s)(c := (sockets s c)\<lparr>chessRole := Some \<lparr>gameId = g, color = col\<rparr>\<rparr>)"
  by (simp add: joined_def Let_def sockets_set_role split: option.split)

lemma games_get_Some:
  "games_get s gid = Some (g, game) \<longleftrightarrow> gid = Some (JStr g) \<and> games s g = Some game"
  by (cases "(s, gid)" rule: games_get.cases) (auto split: option.splits)

lemma games_get_None:
  "games_get s gid = None \<longleftrightarrow> (\<forall>g. gid = Some (JStr g) \<longrightarrow> games s g = None)"
  by (cases "(s, gid)" rule: games_get.cases) (auto split: option.splits)

lemma sockets_handleMove: "sockets (handleMove E c gid f t p s) = sockets s"
  by (simp add: handleMove_def Let_def split: option.split prod.split move_result.split)

lemma sockets_cleanupConnection: "sockets (cleanupConnection c s) = sockets s"
  by (simp add: cleanupConnection_def Let_def split: option.split)

subsection \<open>Runs and reachable states\<close>

lemma run_Some: "\<not> Option.is_none (run E tr s) \<Longrightarrow> run E tr s = Some (the (run E tr s))"
  by (cases "run E tr s") auto

lemma run_reachable: "reachable E s \<Longrightarrow> run E tr s = Some s' \<Longrightarrow> reachable E s'"
proof (induction tr arbitrary: s)
  case Nil
  then show ?case by simp
next
  case (Cons a tr)
  obtain e ev where a: "a = (e, ev)" by (cases a)
  with Cons.prems(2) obtain s1 where s1: "step E e ev s = Some s1" "run E tr s1 = Some s'"
    by (auto split: option.splits)
  from Cons.prems(1) s1(1) have "reachable E s1" by (rule reachable_step)
  with s1(2) show ?case by (rule Cons.IH[rotated])
qed

lemma run_lobby: "run toy_engine trace_lobby init = Some lobby"
proof -
  have "\<not> Option.is_none (run toy_engine trace_lobby init)" by code_simp
  then show ?thesis unfolding lobby_def by (rule run_Some)
qed

lemma run_paired: "run toy_engine trace_paired init = Some paired"
proof -
  have "\<not> Option.is_none (run toy_engine trace_paired init)" by code_simp
  then show ?thesis unfolding paired_def by (rule run_Some)
qed

lemma run_vacated: "run toy_engine trace_vacated init = Some vacated"
proof -
  have "\<not> Option.is_none (run toy_engine trace_vacated init)" by code_simp
  then show ?thesis unfolding vacated_def by (rule run_Some)
qed

lemma run_half_closed: "run toy_engine trace_half_closed init = Some half_closed"
proof -
  have "\<not> Option.is_none (run toy_engine trace_half_closed init)" by code_simp
  then show ?thesis unfolding half_closed_def by (rule run_Some)
qed

lemma run_rebound: "run toy_engine trace_rebound init = Some rebound"
proof -
  have "\<not> Option.is_none (run toy_engine trace_rebound init)" by code_simp
  then show ?thesis unfolding rebound_def by (rule run_Some)
qed

lemma run_stale: "run toy_engine trace_stale init = Some stale"
proof -
  have "\<not> Option.is_none (run toy_engine trace_stale init)" by code_simp
  then show ?thesis unfolding stale_def by (rule run_Some)
qed

lemma run_collided: "run toy_engine trace_collided init = Some collided"
proof -
  have "\<not> Option.is_none (run toy_engine trace_collided init)" by code_simp
  then show ?thesis unfolding collided_def by (rule run_Some)
qed

lemma run_emptied: "run toy_engine trace_emptied init = Some emptied"
proof -
  have "\<not> Option.is_none (run toy_engine trace_emptied init)" by code_simp
  then show ?thesis unfolding emptied_def by (rule run_Some)
qed

lemma run_black_left: "run toy_engine trace_black_left init = Some black_left"
proof -
  have "\<not> Option.is_none (run toy_engine trace_black_left init)" by code_simp
  then show ?thesis unfolding black_left_def by (rule run_Some)
qed

lemma run_emptied_rev: "run toy_engine trace_emptied_rev init = Some emptied_rev"
proof -
  have "\<not> Option.is_none (run toy_engine trace_emptied_rev init)" by code_simp
  then show ?thesis unfolding emptied_rev_def by (rule run_Some)
qed

lemma run_reseated: "run toy_engine trace_reseated init = Some reseated"
proof -
  have "\<not> Option.is_none (run toy_engine trace_reseated init)" by code_simp
  then show ?thesis unfolding reseated_def by (rule run_Some)
qed

lemma run_append:
  "run E (xs @ ys) s = (case run E xs s of None \<Rightarrow> None | Some s' \<Rightarrow> run E ys s')"
  by (induction xs arbitrary: s) (auto split: option.splits)

lemma run_last:
  "run E xs s = Some s1 \<Longrightarrow> run E (xs @ [(e, ev)]) s = Some s2 \<Longrightarrow> step E e ev s1 = Some s2"
  by (simp add: run_append split: option.splits)

text \<open>The sessions and bindings of the concrete runs.\<close>

lemma lobby_game:
  "games lobby ''AAAAAA'' = Some \<lparr>chess = 0, players = \<lparr>w = Some 0, b = None\<rparr>, createdAt = 0\<rparr>"
  by code_simp

lemma paired_game:
  "games paired ''AAAAAA'' = Some \<lparr>chess = 0, players = \<lparr>w = Some 0, b = Some 1\<rparr>, createdAt = 0\<rparr>"
  by code_simp

lemma vacated_game:
  "games vacated ''AAAAAA'' = Some \<lparr>chess = 0, players = \<lparr>w = None, b = Some 1\<rparr>, createdAt = 0\<rparr>"
  by code_simp

lemma half_closed_game:
  "games half_closed ''AAAAAA'' =
     Some \<lparr>chess = 0, players = \<lparr>w = Some 0, b = Some 1\<rparr>, createdAt = 0\<rparr>"
  by code_simp

lemma paired_role_0: "chessRole (sockets paired 0) = Some \<lparr>gameId = ''AAAAAA'', color = W\<rparr>"
  by code_simp

lemma paired_role_1: "chessRole (sockets paired 1) = Some \<lparr>gameId = ''AAAAAA'', color = B\<rparr>"
  by code_simp

lemma paired_open:
  "readyState (sockets paired 0) = OPEN \<and> readyState (sockets paired 1) = OPEN \<and>
   readyState (sockets paired 2) = OPEN"
  by code_simp

subsection \<open>Joining\<close>

text \<open>
  C4. \<open>joinGame\<close> on a stored session: an empty \<open>b\<close> slot is taken first, otherwise an
  empty \<open>w\<close> slot, and the joiner's binding names the seat it took; with both slots occupied
  the map and the sockets stay as they are and the only frame written is the error
  \<open>Game already has two players\<close>, to the requester (through the writable guard of
  \<open>safeSend\<close>). The first connection to join a game right after its creation gets \<open>b\<close>.
\<close>

theorem joinGame_seat_policy:
  assumes "games s g = Some game"
  shows "(b (players game) = None \<longrightarrow>
            games (joinGame E c (Some (JStr g)) s) g
              = Some (game\<lparr>players := (players game)\<lparr>b := Some c\<rparr>\<rparr>) \<and>
            chessRole (sockets (joinGame E c (Some (JStr g)) s) c)
              = Some \<lparr>gameId = g, color = B\<rparr>) \<and>
         (b (players game) \<noteq> None \<and> w (players game) = None \<longrightarrow>
            games (joinGame E c (Some (JStr g)) s) g
              = Some (game\<lparr>players := (players game)\<lparr>w := Some c\<rparr>\<rparr>) \<and>
            chessRole (sockets (joinGame E c (Some (JStr g)) s) c)
              = Some \<lparr>gameId = g, color = W\<rparr>) \<and>
         (b (players game) \<noteq> None \<and> w (players game) \<noteq> None \<longrightarrow>
            games (joinGame E c (Some (JStr g)) s) = games s \<and>
            sockets (joinGame E c (Some (JStr g)) s) = sockets s \<and>
            outbox (joinGame E c (Some (JStr g)) s) =
              outbox s @ (if readyState (sockets s c) = OPEN
                          then [(c, Error ''Game already has two players'')] else [])) \<and>
         chessRole (sockets (joinGame E c (Some (JStr (generateGameId (random e))))
                               (createGame E e c0 s)) c)
           = Some \<lparr>gameId = generateGameId (random e), color = B\<rparr>"
proof -
  have first: "chessRole (sockets (joinGame E c (Some (JStr (generateGameId (random e))))
                               (createGame E e c0 s)) c)
           = Some \<lparr>gameId = generateGameId (random e), color = B\<rparr>"
    by (simp add: joinGame_def games_createGame sockets_joined)
  from assms have
    "b (players game) = None \<longrightarrow>
       games (joinGame E c (Some (JStr g)) s) g
         = Some (game\<lparr>players := (players game)\<lparr>b := Some c\<rparr>\<rparr>) \<and>
       chessRole (sockets (joinGame E c (Some (JStr g)) s) c) = Some \<lparr>gameId = g, color = B\<rparr>"
    by (simp add: joinGame_def games_joined sockets_joined set_slot_def)
  moreover from assms have
    "b (players game) \<noteq> None \<and> w (players game) = None \<longrightarrow>
       games (joinGame E c (Some (JStr g)) s) g
         = Some (game\<lparr>players := (players game)\<lparr>w := Some c\<rparr>\<rparr>) \<and>
       chessRole (sockets (joinGame E c (Some (JStr g)) s) c) = Some \<lparr>gameId = g, color = W\<rparr>"
    by (simp add: joinGame_def games_joined sockets_joined set_slot_def)
  moreover from assms have
    "b (players game) \<noteq> None \<and> w (players game) \<noteq> None \<longrightarrow>
       games (joinGame E c (Some (JStr g)) s) = games s \<and>
       sockets (joinGame E c (Some (JStr g)) s) = sockets s \<and>
       outbox (joinGame E c (Some (JStr g)) s) =
         outbox s @ (if readyState (sockets s c) = OPEN
                     then [(c, Error ''Game already has two players'')] else [])"
    by (simp add: joinGame_def outbox_safeSend)
  ultimately show ?thesis using first by blast
qed

theorem joinGame_seat_policy_witness:
  "games lobby ''AAAAAA'' = Some \<lparr>chess = 0, players = \<lparr>w = Some 0, b = None\<rparr>, createdAt = 0\<rparr> \<and>
   chessRole (sockets (joinGame toy_engine 1 (Some (JStr ''AAAAAA'')) lobby) 1)
     = Some \<lparr>gameId = ''AAAAAA'', color = B\<rparr> \<and>
   games vacated ''AAAAAA'' = Some \<lparr>chess = 0, players = \<lparr>w = None, b = Some 1\<rparr>, createdAt = 0\<rparr> \<and>
   chessRole (sockets (joinGame toy_engine 2 (Some (JStr ''AAAAAA'')) vacated) 2)
     = Some \<lparr>gameId = ''AAAAAA'', color = W\<rparr> \<and>
   games paired ''AAAAAA'' = Some \<lparr>chess = 0, players = \<lparr>w = Some 0, b = Some 1\<rparr>, createdAt = 0\<rparr> \<and>
   games (joinGame toy_engine 2 (Some (JStr ''AAAAAA'')) paired) = games paired \<and>
   sockets (joinGame toy_engine 2 (Some (JStr ''AAAAAA'')) paired) = sockets paired \<and>
   outbox (joinGame toy_engine 2 (Some (JStr ''AAAAAA'')) paired)
     = outbox paired @ [(2, Error ''Game already has two players'')]"
proof -
  have o: "readyState (sockets paired 2) = OPEN" using paired_open by simp
  from joinGame_seat_policy[OF lobby_game, of toy_engine 1]
  have a: "chessRole (sockets (joinGame toy_engine 1 (Some (JStr ''AAAAAA'')) lobby) 1)
             = Some \<lparr>gameId = ''AAAAAA'', color = B\<rparr>"
    by simp
  from joinGame_seat_policy[OF vacated_game, of toy_engine 2]
  have b: "chessRole (sockets (joinGame toy_engine 2 (Some (JStr ''AAAAAA'')) vacated) 2)
             = Some \<lparr>gameId = ''AAAAAA'', color = W\<rparr>"
    by simp
  from joinGame_seat_policy[OF paired_game, of toy_engine 2] o
  have c: "games (joinGame toy_engine 2 (Some (JStr ''AAAAAA'')) paired) = games paired \<and>
           sockets (joinGame toy_engine 2 (Some (JStr ''AAAAAA'')) paired) = sockets paired \<and>
           outbox (joinGame toy_engine 2 (Some (JStr ''AAAAAA'')) paired)
             = outbox paired @ [(2, Error ''Game already has two players'')]"
    by simp
  from a b c lobby_game vacated_game paired_game show ?thesis by blast
qed

subsection \<open>Moves\<close>

text \<open>
  C5. A \<open>make_move\<close> on a stored session by a connection whose binding names that game
  but whose seat is not the one \<open>turn\<close> reports: the map and the sockets (seat slots,
  position, bindings) are as before, and the outbox grows by at most one frame, the error
  \<open>Not your turn\<close> addressed to the requester; nothing is written to the opponent.
\<close>

theorem handleMove_not_your_turn:
  assumes "games s g = Some game"
      and "chessRole (sockets s c) = Some r"
      and "gameId r = g"
      and "color r \<noteq> turn E (chess game)"
  shows "games (handleMove E c (Some (JStr g)) f t p s) = games s \<and>
         sockets (handleMove E c (Some (JStr g)) f t p s) = sockets s \<and>
         outbox (handleMove E c (Some (JStr g)) f t p s) =
           outbox s @ (if readyState (sockets s c) = OPEN
                       then [(c, Error ''Not your turn'')] else [])"
  using assms by (simp add: handleMove_def outbox_safeSend)

theorem handleMove_not_your_turn_witness:
  "games paired ''AAAAAA'' = Some \<lparr>chess = 0, players = \<lparr>w = Some 0, b = Some 1\<rparr>, createdAt = 0\<rparr> \<and>
   chessRole (sockets paired 1) = Some \<lparr>gameId = ''AAAAAA'', color = B\<rparr> \<and>
   turn toy_engine 0 = W \<and>
   games (handleMove toy_engine 1 (Some (JStr ''AAAAAA'')) (Some (JStr ''e7'')) (Some (JStr ''e5''))
            None paired) = games paired \<and>
   sockets (handleMove toy_engine 1 (Some (JStr ''AAAAAA'')) (Some (JStr ''e7''))
              (Some (JStr ''e5'')) None paired) = sockets paired \<and>
   outbox (handleMove toy_engine 1 (Some (JStr ''AAAAAA'')) (Some (JStr ''e7''))
             (Some (JStr ''e5'')) None paired) = outbox paired @ [(1, Error ''Not your turn'')]"
proof -
  have t: "turn toy_engine 0 = W" by (simp add: toy_engine_def)
  have o: "readyState (sockets paired 1) = OPEN" using paired_open by simp
  from handleMove_not_your_turn[OF paired_game paired_role_1, of toy_engine
         "Some (JStr ''e7'')" "Some (JStr ''e5'')" None] t o
  have "games (handleMove toy_engine 1 (Some (JStr ''AAAAAA'')) (Some (JStr ''e7''))
                 (Some (JStr ''e5'')) None paired) = games paired \<and>
        sockets (handleMove toy_engine 1 (Some (JStr ''AAAAAA'')) (Some (JStr ''e7''))
                   (Some (JStr ''e5'')) None paired) = sockets paired \<and>
        outbox (handleMove toy_engine 1 (Some (JStr ''AAAAAA'')) (Some (JStr ''e7''))
                  (Some (JStr ''e5'')) None paired) = outbox paired @ [(1, Error ''Not your turn'')]"
    by simp
  with paired_game paired_role_1 t show ?thesis by blast
qed

text \<open>
  C6. A move the engine accepts: the session keeps its seats and holds the engine's new
  position; the sockets are untouched; one \<open>move_made\<close> frame built from the new position
  (its \<open>fen\<close>, the move, \<open>turn\<close>, \<open>isGameOver\<close>, \<open>isCheckmate\<close>, \<open>isDraw\<close>) is written
  first to the \<open>w\<close> slot and then to the \<open>b\<close> slot, the same frame to both; a slot that is
  empty, or whose socket is not \<open>OPEN\<close>, adds nothing and raises nothing.
\<close>

theorem handleMove_broadcast:
  assumes "games s g = Some game"
      and "chessRole (sockets s c) = Some r"
      and "gameId r = g"
      and "color r = turn E (chess game)"
      and "move E (chess game) f t (if truthy_opt p then the p else JStr ''q'') = Moved m ch"
  shows "games (handleMove E c (Some (JStr g)) f t p s) = (games s)(g \<mapsto> game\<lparr>chess := ch\<rparr>) \<and>
         sockets (handleMove E c (Some (JStr g)) f t p s) = sockets s \<and>
         outbox (handleMove E c (Some (JStr g)) f t p s) =
           outbox s
           @ (case w (players game) of None \<Rightarrow> []
              | Some x \<Rightarrow>
                  if readyState (sockets s x) = OPEN
                  then [(x, Move_made g (fen E ch) m (turn E ch) (isGameOver E ch)
                              (isCheckmate E ch) (isDraw E ch))]
                  else [])
           @ (case b (players game) of None \<Rightarrow> []
              | Some y \<Rightarrow>
                  if readyState (sockets s y) = OPEN
                  then [(y, Move_made g (fen E ch) m (turn E ch) (isGameOver E ch)
                              (isCheckmate E ch) (isDraw E ch))]
                  else [])"
  using assms by (simp add: handleMove_def Let_def outbox_safeSend split: option.split)

theorem handleMove_broadcast_witness:
  "games paired ''AAAAAA'' = Some \<lparr>chess = 0, players = \<lparr>w = Some 0, b = Some 1\<rparr>, createdAt = 0\<rparr> \<and>
   chessRole (sockets paired 0) = Some \<lparr>gameId = ''AAAAAA'', color = W\<rparr> \<and>
   turn toy_engine 0 = W \<and>
   move toy_engine 0 (Some (JStr ''e2'')) (Some (JStr ''e4'')) (JStr ''q'') = Moved ''e2e4'' 1 \<and>
   games (handleMove toy_engine 0 (Some (JStr ''AAAAAA'')) (Some (JStr ''e2'')) (Some (JStr ''e4''))
            None paired) ''AAAAAA''
     = Some \<lparr>chess = 1, players = \<lparr>w = Some 0, b = Some 1\<rparr>, createdAt = 0\<rparr> \<and>
   outbox (handleMove toy_engine 0 (Some (JStr ''AAAAAA'')) (Some (JStr ''e2'')) (Some (JStr ''e4''))
             None paired)
     = outbox paired @ [(0, Move_made ''AAAAAA'' ''m'' ''e2e4'' B False False False),
                        (1, Move_made ''AAAAAA'' ''m'' ''e2e4'' B False False False)] \<and>
   readyState (sockets half_closed 1) = CLOSING \<and>
   outbox (handleMove toy_engine 0 (Some (JStr ''AAAAAA'')) (Some (JStr ''e2'')) (Some (JStr ''e4''))
             None half_closed)
     = outbox half_closed @ [(0, Move_made ''AAAAAA'' ''m'' ''e2e4'' B False False False)]"
proof -
  have t: "turn toy_engine 0 = W" by (simp add: toy_engine_def)
  have m: "move toy_engine 0 (Some (JStr ''e2'')) (Some (JStr ''e4'')) (JStr ''q'') = Moved ''e2e4'' 1"
    by (simp add: toy_engine_def toy_move_def)
  have q: "fen toy_engine 1 = ''m'' \<and> turn toy_engine 1 = B \<and> \<not> isGameOver toy_engine 1 \<and>
           \<not> isCheckmate toy_engine 1 \<and> \<not> isDraw toy_engine 1"
    by (simp add: toy_engine_def)
  have r': "chessRole (sockets half_closed 0) = Some \<lparr>gameId = ''AAAAAA'', color = W\<rparr>"
    by code_simp
  have o': "readyState (sockets half_closed 0) = OPEN" by code_simp
  have c': "readyState (sockets half_closed 1) = CLOSING" by code_simp
  from handleMove_broadcast[OF paired_game paired_role_0, of toy_engine
         "Some (JStr ''e2'')" "Some (JStr ''e4'')" None "''e2e4''" 1] t m q paired_open
  have a: "games (handleMove toy_engine 0 (Some (JStr ''AAAAAA'')) (Some (JStr ''e2''))
                    (Some (JStr ''e4'')) None paired) ''AAAAAA''
             = Some \<lparr>chess = 1, players = \<lparr>w = Some 0, b = Some 1\<rparr>, createdAt = 0\<rparr> \<and>
           outbox (handleMove toy_engine 0 (Some (JStr ''AAAAAA'')) (Some (JStr ''e2''))
                     (Some (JStr ''e4'')) None paired)
             = outbox paired @ [(0, Move_made ''AAAAAA'' ''m'' ''e2e4'' B False False False),
                                (1, Move_made ''AAAAAA'' ''m'' ''e2e4'' B False False False)]"
    by simp
  from handleMove_broadcast[OF half_closed_game r', of toy_engine
         "Some (JStr ''e2'')" "Some (JStr ''e4'')" None "''e2e4''" 1] t m q o' c'
  have b: "outbox (handleMove toy_engine 0 (Some (JStr ''AAAAAA'')) (Some (JStr ''e2''))
                     (Some (JStr ''e4'')) None half_closed)
             = outbox half_closed @ [(0, Move_made ''AAAAAA'' ''m'' ''e2e4'' B False False False)]"
    by simp
  from a b c' t m paired_game paired_role_0 show ?thesis by blast
qed

text \<open>
  C7. A move the engine does not make. When \<open>move\<close> returns no move the requester is sent
  \<open>Illegal move\<close>; when it throws, \<open>Move error\<close>. In both cases the map and the sockets
  are as before and no other frame is written. (That the engine leaves the position alone
  when it rejects or throws is its contract, see the engine above.)
\<close>

theorem handleMove_rejected:
  assumes "games s g = Some game"
      and "chessRole (sockets s c) = Some r"
      and "gameId r = g"
      and "color r = turn E (chess game)"
      and "move E (chess game) f t (if truthy_opt p then the p else JStr ''q'') = res"
      and "res = Null \<or> res = Threw"
  shows "games (handleMove E c (Some (JStr g)) f t p s) = games s \<and>
         sockets (handleMove E c (Some (JStr g)) f t p s) = sockets s \<and>
         outbox (handleMove E c (Some (JStr g)) f t p s) =
           outbox s @ (if readyState (sockets s c) = OPEN
                       then [(c, Error (if res = Null then ''Illegal move'' else ''Move error''))]
                       else [])"
proof (cases "res = Null")
  case True
  with assms(1-5) show ?thesis by (simp add: handleMove_def outbox_safeSend)
next
  case False
  with assms(6) have "res = Threw" by simp
  with assms(1-5) show ?thesis by (simp add: handleMove_def outbox_safeSend)
qed

theorem handleMove_rejected_witness:
  "games paired ''AAAAAA'' = Some \<lparr>chess = 0, players = \<lparr>w = Some 0, b = Some 1\<rparr>, createdAt = 0\<rparr> \<and>
   chessRole (sockets paired 0) = Some \<lparr>gameId = ''AAAAAA'', color = W\<rparr> \<and>
   turn toy_engine 0 = W \<and>
   move toy_engine 0 (Some (JStr ''e2'')) (Some (JStr ''e2'')) (JStr ''q'') = Null \<and>
   games (handleMove toy_engine 0 (Some (JStr ''AAAAAA'')) (Some (JStr ''e2'')) (Some (JStr ''e2''))
            None paired) = games paired \<and>
   outbox (handleMove toy_engine 0 (Some (JStr ''AAAAAA'')) (Some (JStr ''e2'')) (Some (JStr ''e2''))
             None paired) = outbox paired @ [(0, Error ''Illegal move'')] \<and>
   move toy_engine 0 None (Some (JStr ''e4'')) (JStr ''q'') = Threw \<and>
   games (handleMove toy_engine 0 (Some (JStr ''AAAAAA'')) None (Some (JStr ''e4'')) None paired)
     = games paired \<and>
   outbox (handleMove toy_engine 0 (Some (JStr ''AAAAAA'')) None (Some (JStr ''e4'')) None paired)
     = outbox paired @ [(0, Error ''Move error'')]"
proof -
  have t: "turn toy_engine 0 = W" by (simp add: toy_engine_def)
  have n: "move toy_engine 0 (Some (JStr ''e2'')) (Some (JStr ''e2'')) (JStr ''q'') = Null"
    by (simp add: toy_engine_def toy_move_def)
  have x: "move toy_engine 0 None (Some (JStr ''e4'')) (JStr ''q'') = Threw"
    by (simp add: toy_engine_def toy_move_def)
  have o: "readyState (sockets paired 0) = OPEN" using paired_open by simp
  from handleMove_rejected[OF paired_game paired_role_0, of toy_engine
         "Some (JStr ''e2'')" "Some (JStr ''e2'')" None Null] t n o
  have a: "games (handleMove toy_engine 0 (Some (JStr ''AAAAAA'')) (Some (JStr ''e2''))
                    (Some (JStr ''e2'')) None paired) = games paired \<and>
           outbox (handleMove toy_engine 0 (Some (JStr ''AAAAAA'')) (Some (JStr ''e2''))
                     (Some (JStr ''e2'')) None paired) = outbox paired @ [(0, Error ''Illegal move'')]"
    by simp
  from handleMove_rejected[OF paired_game paired_role_0, of toy_engine
         None "Some (JStr ''e4'')" None Threw] t x o
  have b: "games (handleMove toy_engine 0 (Some (JStr ''AAAAAA'')) None (Some (JStr ''e4''))
                    None paired) = games paired \<and>
           outbox (handleMove toy_engine 0 (Some (JStr ''AAAAAA'')) None (Some (JStr ''e4''))
                     None paired) = outbox paired @ [(0, Error ''Move error'')]"
    by simp
  from a b t n x paired_game paired_role_0 show ?thesis by blast
qed

subsection \<open>Closing\<close>

lemma cleanupConnection_unbound:
  "chessRole (sockets s c) = None \<Longrightarrow> cleanupConnection c s = s"
  by (simp add: cleanupConnection_def)

lemma cleanupConnection_gone:
  "chessRole (sockets s c) = Some r \<Longrightarrow> games s (gameId r) = None \<Longrightarrow> cleanupConnection c s = s"
  by (simp add: cleanupConnection_def)

lemma cleanupConnection_twice:
  "cleanupConnection c (cleanupConnection c s) = cleanupConnection c s"
proof (cases "chessRole (sockets s c)")
  case None
  then show ?thesis by (simp add: cleanupConnection_unbound)
next
  case (Some r)
  show ?thesis
  proof (cases "games s (gameId r)")
    case None
    with Some show ?thesis by (simp add: cleanupConnection_gone)
  next
    case (Some game)
    with \<open>chessRole (sockets s c) = Some r\<close> show ?thesis
      by (cases "color r")
         (auto simp add: cleanupConnection_def Let_def slot_def set_slot_def)
  qed
qed

subsection \<open>Who may move\<close>

text \<open>
  C10. On a stored session the participant check of \<open>handleMove\<close> reads the requester's
  binding and nothing else: the reply is \<open>You are not part of this game\<close> exactly when the
  binding is missing or names another game, whatever the session's seat table holds. So a
  connection that sits in a seat slot but whose binding names another game is turned away,
  and a connection that is no longer in the slot of its bound seat, but whose binding still
  names this game and the seat to move, has its accepted move applied. (The requester is
  taken to be writable, so that the replies can be told apart.)
\<close>

theorem handleMove_checks_binding_only:
  assumes "games s g = Some game"
      and "readyState (sockets s c) = OPEN"
  shows "((handleMove E c (Some (JStr g)) f t p s
            = safeSend (Some c) (Error ''You are not part of this game'') s)
          = (\<forall>r. chessRole (sockets s c) = Some r \<longrightarrow> gameId r \<noteq> g)) \<and>
         (\<forall>r. chessRole (sockets s c) = Some r \<and> gameId r \<noteq> g \<and>
               (w (players game) = Some c \<or> b (players game) = Some c) \<longrightarrow>
               handleMove E c (Some (JStr g)) f t p s
                 = safeSend (Some c) (Error ''You are not part of this game'') s) \<and>
         (\<forall>r m ch. chessRole (sockets s c) = Some r \<and> gameId r = g \<and>
               slot (color r) (players game) \<noteq> Some c \<and>
               color r = turn E (chess game) \<and>
               move E (chess game) f t (if truthy_opt p then the p else JStr ''q'') = Moved m ch \<longrightarrow>
               games (handleMove E c (Some (JStr g)) f t p s) g = Some (game\<lparr>chess := ch\<rparr>))"
proof -
  let ?rej = "safeSend (Some c) (Error ''You are not part of this game'') s"
  have out_rej: "outbox ?rej = outbox s @ [(c, Error ''You are not part of this game'')]"
    using assms(2) by (simp add: outbox_safeSend)
  have elsewhere: "handleMove E c (Some (JStr g)) f t p s = ?rej"
    if "\<forall>r. chessRole (sockets s c) = Some r \<longrightarrow> gameId r \<noteq> g"
    using that assms(1) by (simp add: handleMove_def split: option.split)
  have here: "handleMove E c (Some (JStr g)) f t p s \<noteq> ?rej"
    if r: "chessRole (sockets s c) = Some r" "gameId r = g" for r
  proof
    assume eq: "handleMove E c (Some (JStr g)) f t p s = ?rej"
    then have o: "outbox (handleMove E c (Some (JStr g)) f t p s)
                    = outbox s @ [(c, Error ''You are not part of this game'')]"
      using out_rej by simp
    show False
    proof (cases "color r = turn E (chess game)")
      case False
      with o r assms show False by (simp add: handleMove_def outbox_safeSend)
    next
      case True
      show False
      proof (cases "move E (chess game) f t (if truthy_opt p then the p else JStr ''q'')")
        case (Moved m ch)
        with o r assms True show False
          by (auto simp add: handleMove_def Let_def outbox_safeSend
                   split: option.splits if_splits)
      next
        case Null
        with o r assms True show False by (simp add: handleMove_def outbox_safeSend)
      next
        case Threw
        with o r assms True show False by (simp add: handleMove_def outbox_safeSend)
      qed
    qed
  qed
  have applied: "games (handleMove E c (Some (JStr g)) f t p s) g = Some (game\<lparr>chess := ch\<rparr>)"
    if "chessRole (sockets s c) = Some r" "gameId r = g" "color r = turn E (chess game)"
       "move E (chess game) f t (if truthy_opt p then the p else JStr ''q'') = Moved m ch"
    for r m ch
    using that assms(1) by (simp add: handleMove_def Let_def)
  have A: "(handleMove E c (Some (JStr g)) f t p s = ?rej)
             = (\<forall>r. chessRole (sockets s c) = Some r \<longrightarrow> gameId r \<noteq> g)"
    using elsewhere here by blast
  have B: "\<forall>r. chessRole (sockets s c) = Some r \<and> gameId r \<noteq> g \<and>
               (w (players game) = Some c \<or> b (players game) = Some c) \<longrightarrow>
               handleMove E c (Some (JStr g)) f t p s = ?rej"
    using elsewhere by simp
  have C: "\<forall>r m ch. chessRole (sockets s c) = Some r \<and> gameId r = g \<and>
               slot (color r) (players game) \<noteq> Some c \<and>
               color r = turn E (chess game) \<and>
               move E (chess game) f t (if truthy_opt p then the p else JStr ''q'') = Moved m ch \<longrightarrow>
               games (handleMove E c (Some (JStr g)) f t p s) g = Some (game\<lparr>chess := ch\<rparr>)"
    using applied by blast
  from A B C show ?thesis by (intro conjI)
qed

theorem handleMove_checks_binding_only_witness:
  "games rebound ''AAAAAA'' = Some \<lparr>chess = 0, players = \<lparr>w = Some 0, b = Some 1\<rparr>, createdAt = 0\<rparr> \<and>
   chessRole (sockets rebound 0) = Some \<lparr>gameId = ''BBBBBB'', color = W\<rparr> \<and>
   readyState (sockets rebound 0) = OPEN \<and>
   handleMove toy_engine 0 (Some (JStr ''AAAAAA'')) (Some (JStr ''e2'')) (Some (JStr ''e4'')) None rebound
     = safeSend (Some 0) (Error ''You are not part of this game'') rebound \<and>
   games collided ''AAAAAA'' = Some \<lparr>chess = 0, players = \<lparr>w = Some 1, b = None\<rparr>, createdAt = 0\<rparr> \<and>
   chessRole (sockets collided 0) = Some \<lparr>gameId = ''AAAAAA'', color = W\<rparr> \<and>
   readyState (sockets collided 0) = OPEN \<and>
   handleMove toy_engine 0 (Some (JStr ''AAAAAA'')) (Some (JStr ''e2'')) (Some (JStr ''e4'')) None collided
     \<noteq> safeSend (Some 0) (Error ''You are not part of this game'') collided \<and>
   games (handleMove toy_engine 0 (Some (JStr ''AAAAAA'')) (Some (JStr ''e2'')) (Some (JStr ''e4''))
            None collided) ''AAAAAA''
     = Some \<lparr>chess = 1, players = \<lparr>w = Some 1, b = None\<rparr>, createdAt = 0\<rparr>"
proof -
  have g1: "games rebound ''AAAAAA''
              = Some \<lparr>chess = 0, players = \<lparr>w = Some 0, b = Some 1\<rparr>, createdAt = 0\<rparr>"
    by code_simp
  have r1: "chessRole (sockets rebound 0) = Some \<lparr>gameId = ''BBBBBB'', color = W\<rparr>"
    by code_simp
  have o1: "readyState (sockets rebound 0) = OPEN" by code_simp
  have g2: "games collided ''AAAAAA''
              = Some \<lparr>chess = 0, players = \<lparr>w = Some 1, b = None\<rparr>, createdAt = 0\<rparr>"
    by code_simp
  have r2: "chessRole (sockets collided 0) = Some \<lparr>gameId = ''AAAAAA'', color = W\<rparr>"
    by code_simp
  have o2: "readyState (sockets collided 0) = OPEN" by code_simp
  have t: "turn toy_engine 0 = W" by (simp add: toy_engine_def)
  have m: "move toy_engine 0 (Some (JStr ''e2'')) (Some (JStr ''e4'')) (JStr ''q'') = Moved ''e2e4'' 1"
    by (simp add: toy_engine_def toy_move_def)
  from handleMove_checks_binding_only[OF g1 o1, of toy_engine
         "Some (JStr ''e2'')" "Some (JStr ''e4'')" None] r1
  have a: "handleMove toy_engine 0 (Some (JStr ''AAAAAA'')) (Some (JStr ''e2'')) (Some (JStr ''e4''))
             None rebound = safeSend (Some 0) (Error ''You are not part of this game'') rebound"
    by simp
  note w2 = handleMove_checks_binding_only[OF g2 o2, of toy_engine
         "Some (JStr ''e2'')" "Some (JStr ''e4'')" None]
  from w2 r2
  have b: "handleMove toy_engine 0 (Some (JStr ''AAAAAA'')) (Some (JStr ''e2'')) (Some (JStr ''e4''))
             None collided \<noteq> safeSend (Some 0) (Error ''You are not part of this game'') collided"
    by simp
  from w2 r2 t m
  have c: "games (handleMove toy_engine 0 (Some (JStr ''AAAAAA'')) (Some (JStr ''e2''))
                    (Some (JStr ''e4'')) None collided) ''AAAAAA''
             = Some \<lparr>chess = 1, players = \<lparr>w = Some 1, b = None\<rparr>, createdAt = 0\<rparr>"
    by (simp add: slot_def)
  from g1 r1 o1 a g2 r2 o2 b c show ?thesis by blast
qed

subsection \<open>Dispatch\<close>

lemma on_message_unrecognised:
  assumes "msg \<noteq> JNull"
      and "get_prop ''type'' msg \<noteq> Some (JStr ''create_game'')"
      and "get_prop ''type'' msg \<noteq> Some (JStr ''join_game'')"
      and "get_prop ''type'' msg \<noteq> Some (JStr ''make_move'')"
  shows "on_message E e c (Parsed msg) s
           = Inr (safeSend (Some c) (Error ''Unknown message type'') s)"
  using assms by (simp add: on_message_def)

lemma on_message_undecodable:
  "on_message E e c SyntaxError s = Inr (safeSend (Some c) (Error ''Invalid JSON'') s)"
  by (simp add: on_message_def)

text \<open>
  The scenario of the spec, run from the initial state: A creates, B joins, B tries to move
  out of turn, A makes the opening move. The frames written, in order.
\<close>

lemma scenario_outbox:
  "map_option outbox
     (run toy_engine
        (trace_paired @
         [(env_const 0, Message 1 (make_move ''AAAAAA'' ''e7'' ''e5'')),
          (env_const 0, Message 0 (make_move ''AAAAAA'' ''e2'' ''e4''))]) init)
   = Some [(0, Connected ''Connected to Chess3 multiplayer server''),
           (1, Connected ''Connected to Chess3 multiplayer server''),
           (2, Connected ''Connected to Chess3 multiplayer server''),
           (0, Game_created ''AAAAAA'' W []),
           (1, Game_joined ''AAAAAA'' B []),
           (0, Opponent_joined ''AAAAAA'' B),
           (1, Error ''Not your turn''),
           (0, Move_made ''AAAAAA'' ''m'' ''e2e4'' B False False False),
           (1, Move_made ''AAAAAA'' ''m'' ''e2e4'' B False False False)]"
  by code_simp

text \<open>
  C8. The frame \<open>null\<close> parses, is none of the three recognised kinds, and makes the
  \<open>message\<close> listener throw a \<open>TypeError\<close> at \<open>const { type } = msg\<close>: no reply is written
  and the run has no next state. (Every other unrecognised or undecodable frame is answered
  with an error to the requester alone, by the two lemmas above.)
\<close>

theorem on_message_null_throws:
  "on_message E e c (Parsed JNull) s = Inl TypeError \<and>
   step E e (Message c (Parsed JNull)) s = None"
  by (simp add: on_message_def)

subsection \<open>Creating\<close>

lemma length_chars: "length chars = 32"
  by (simp add: chars_def)

lemma generateGameId_loop_shape:
  "(\<And>j. i \<le> j \<Longrightarrow> j < i + n \<Longrightarrow> rnd j < 32) \<Longrightarrow>
   length (generateGameId_loop rnd i n acc) = length acc + n \<and>
   set (generateGameId_loop rnd i n acc) \<subseteq> set acc \<union> set chars"
proof (induction n arbitrary: i acc)
  case 0
  then show ?case by simp
next
  case (Suc n)
  have here: "rnd i < 32" using Suc.prems[of i] by simp
  have rest: "\<And>j. Suc i \<le> j \<Longrightarrow> j < Suc i + n \<Longrightarrow> rnd j < 32"
    using Suc.prems by simp
  from here have "char_at (rnd i) = [chars ! rnd i]" "chars ! rnd i \<in> set chars"
    by (simp_all add: char_at_def length_chars)
  moreover have "length (generateGameId_loop rnd (Suc i) n (acc @ char_at (rnd i)))
                   = length (acc @ char_at (rnd i)) + n \<and>
                 set (generateGameId_loop rnd (Suc i) n (acc @ char_at (rnd i)))
                   \<subseteq> set (acc @ char_at (rnd i)) \<union> set chars"
    using rest by (rule Suc.IH)
  ultimately show ?case by auto
qed

lemma generateGameId_shape:
  "(\<And>j. j < 6 \<Longrightarrow> rnd j < 32) \<Longrightarrow>
   length (generateGameId rnd) = 6 \<and> set (generateGameId rnd) \<subseteq> set chars"
  using generateGameId_loop_shape[of 0 6 rnd "[]"] by (simp add: generateGameId_def)

lemma gid_0: "generateGameId (random (env_const 0)) = ''AAAAAA''"
  by code_simp

lemma gid_1: "generateGameId (random (env_const 1)) = ''BBBBBB''"
  by code_simp

text \<open>
  C1, as the code has it. \<open>createGame\<close> stores, under the id it draws, a session with the
  engine's initial position, the creator in the \<open>w\<close> slot and the \<open>b\<close> slot empty, binds the
  creator to \<open>(id, w)\<close>, and leaves every other key of the map alone. The id is not looked
  up before the insertion: only when the drawn id is not a key of the map does the map
  after the call contain every session it held before.
\<close>

theorem createGame_session:
  "games (createGame E e c s) (generateGameId (random e))
     = Some \<lparr>chess = new_chess E, players = \<lparr>w = Some c, b = None\<rparr>, createdAt = now e\<rparr> \<and>
   chessRole (sockets (createGame E e c s) c)
     = Some \<lparr>gameId = generateGameId (random e), color = W\<rparr> \<and>
   (\<forall>g. g \<noteq> generateGameId (random e) \<longrightarrow> games (createGame E e c s) g = games s g) \<and>
   (generateGameId (random e) \<notin> dom (games s) \<longrightarrow> games s \<subseteq>\<^sub>m games (createGame E e c s))"
  by (auto simp add: games_createGame sockets_createGame map_le_def)

theorem createGame_session_witness:
  "generateGameId (random (env_const 1)) = ''BBBBBB'' \<and>
   ''BBBBBB'' \<notin> dom (games lobby) \<and>
   games (createGame toy_engine (env_const 1) 1 lobby) ''BBBBBB''
     = Some \<lparr>chess = 0, players = \<lparr>w = Some 1, b = None\<rparr>, createdAt = 0\<rparr> \<and>
   games (createGame toy_engine (env_const 1) 1 lobby) ''AAAAAA'' = games lobby ''AAAAAA'' \<and>
   games lobby \<subseteq>\<^sub>m games (createGame toy_engine (env_const 1) 1 lobby)"
proof -
  have n: "games lobby ''BBBBBB'' = None" by code_simp
  then have d: "''BBBBBB'' \<notin> dom (games lobby)" by (simp add: domIff)
  have v: "new_chess toy_engine = 0" "now (env_const 1) = 0"
    by (simp_all add: toy_engine_def env_const_def)
  note t = createGame_session[of toy_engine "env_const 1" 1 lobby, unfolded gid_1]
  from t v have a: "games (createGame toy_engine (env_const 1) 1 lobby) ''BBBBBB''
             = Some \<lparr>chess = 0, players = \<lparr>w = Some 1, b = None\<rparr>, createdAt = 0\<rparr>"
    by simp
  from t have b: "games (createGame toy_engine (env_const 1) 1 lobby) ''AAAAAA''
                    = games lobby ''AAAAAA''"
    by simp
  from t d have c: "games lobby \<subseteq>\<^sub>m games (createGame toy_engine (env_const 1) 1 lobby)"
    by blast
  from gid_1 d a b c show ?thesis by blast
qed

text \<open>
  C1, as stated, fails: in \<open>lobby\<close> the id \<open>AAAAAA\<close> is a key of the map, holding the
  session of connection 0; connection 1 sends \<open>create_game\<close>, the six draws give \<open>AAAAAA\<close>
  again, and the session stored under that key is now the one of connection 1.
\<close>

theorem createGame_overwrites:
  "run toy_engine trace_lobby init = Some lobby \<and>
   games lobby ''AAAAAA'' = Some \<lparr>chess = 0, players = \<lparr>w = Some 0, b = None\<rparr>, createdAt = 0\<rparr> \<and>
   generateGameId (random (env_const 0)) = ''AAAAAA'' \<and>
   ''AAAAAA'' \<in> dom (games lobby) \<and>
   step toy_engine (env_const 0) (Message 1 create_game) lobby
     = Some (createGame toy_engine (env_const 0) 1 lobby) \<and>
   games (createGame toy_engine (env_const 0) 1 lobby) ''AAAAAA''
     = Some \<lparr>chess = 0, players = \<lparr>w = Some 1, b = None\<rparr>, createdAt = 0\<rparr>"
proof -
  have o: "readyState (sockets lobby 1) = OPEN" by code_simp
  have d: "''AAAAAA'' \<in> dom (games lobby)" using lobby_game by (simp add: domIff)
  have st: "step toy_engine (env_const 0) (Message 1 create_game) lobby
              = Some (createGame toy_engine (env_const 0) 1 lobby)"
    using o by (simp add: on_message_def create_game_def)
  have g: "games (createGame toy_engine (env_const 0) 1 lobby) ''AAAAAA''
             = Some \<lparr>chess = 0, players = \<lparr>w = Some 1, b = None\<rparr>, createdAt = 0\<rparr>"
    using gid_0 by (simp add: games_createGame) (simp add: toy_engine_def env_const_def)
  from run_lobby lobby_game gid_0 d st g show ?thesis by blast
qed

subsection \<open>Role bindings\<close>

lemma chessRole_createGame_other:
  "x \<noteq> c \<Longrightarrow> chessRole (sockets (createGame E e c s) x) = chessRole (sockets s x)"
  by (simp add: sockets_createGame)

lemma sockets_joinGame_failed:
  "games_get s gid = None \<or>
   (\<exists>g game. games_get s gid = Some (g, game) \<and> b (players game) \<noteq> None \<and> w (players game) \<noteq> None)
   \<Longrightarrow> sockets (joinGame E c gid s) = sockets s"
  by (auto simp add: joinGame_def)

lemma chessRole_joinGame_other:
  "x \<noteq> c \<Longrightarrow> chessRole (sockets (joinGame E c gid s) x) = chessRole (sockets s x)"
  by (simp add: joinGame_def sockets_joined split: option.split prod.split)

lemma on_message_rebinds:
  assumes "on_message E e c d s = Inr s'"
      and "chessRole (sockets s' x) \<noteq> chessRole (sockets s x)"
  shows "x = c \<and> (\<exists>msg. d = Parsed msg \<and>
           (get_prop ''type'' msg = Some (JStr ''create_game'') \<or>
            get_prop ''type'' msg = Some (JStr ''join_game'')))"
proof (cases d)
  case SyntaxError
  with assms show ?thesis by (auto simp add: on_message_def)
next
  case (Parsed msg)
  show ?thesis
  proof (cases "x = c")
    case True
    with assms Parsed show ?thesis
      by (auto simp add: on_message_def Let_def sockets_handleMove split: if_splits)
  next
    case False
    with assms Parsed show ?thesis
      by (auto simp add: on_message_def Let_def sockets_handleMove chessRole_createGame_other
            chessRole_joinGame_other split: if_splits)
  qed
qed

lemma step_rebinds:
  assumes "step E e ev s = Some s'"
      and "chessRole (sockets s' x) \<noteq> chessRole (sockets s x)"
  shows "\<exists>msg. ev = Message x (Parsed msg) \<and>
           (get_prop ''type'' msg = Some (JStr ''create_game'') \<or>
            get_prop ''type'' msg = Some (JStr ''join_game''))"
proof (cases ev)
  case (Connection c)
  with assms show ?thesis by (auto split: if_splits)
next
  case (Message c d)
  with assms(1) have "on_message E e c d s = Inr s'"
    by (auto split: if_splits sum.splits)
  from on_message_rebinds[OF this assms(2)] Message show ?thesis by auto
next
  case (Closing c)
  with assms show ?thesis by (auto split: if_splits)
next
  case (Close c)
  with assms show ?thesis
    by (auto simp add: on_close_def sockets_cleanupConnection split: if_splits)
qed

text \<open>
  C2, as the code has it. The binding is not set once: every \<open>createGame\<close> binds the
  caller to the new id and \<open>w\<close>, and every \<open>joinGame\<close> that finds a free seat binds the
  caller to that game and seat, whatever binding the caller had. A \<open>joinGame\<close> that finds
  no game, or a full one, leaves all sockets as they are; and across any event a
  connection's binding changes only when the event is a \<open>create_game\<close> or \<open>join_game\<close>
  frame from that same connection.
\<close>

theorem role_binding_rebinds:
  "chessRole (sockets (createGame E e c s) c)
     = Some \<lparr>gameId = generateGameId (random e), color = W\<rparr> \<and>
   (\<forall>g game. games s g = Some game \<and> b (players game) = None \<longrightarrow>
      chessRole (sockets (joinGame E c (Some (JStr g)) s) c) = Some \<lparr>gameId = g, color = B\<rparr>) \<and>
   (\<forall>g game. games s g = Some game \<and> b (players game) \<noteq> None \<and> w (players game) = None \<longrightarrow>
      chessRole (sockets (joinGame E c (Some (JStr g)) s) c) = Some \<lparr>gameId = g, color = W\<rparr>) \<and>
   (games_get s gid = None \<or>
    (\<exists>g game. games_get s gid = Some (g, game) \<and>
               b (players game) \<noteq> None \<and> w (players game) \<noteq> None) \<longrightarrow>
      sockets (joinGame E c gid s) = sockets s) \<and>
   (\<forall>ev s' x. step E e ev s = Some s' \<and> chessRole (sockets s' x) \<noteq> chessRole (sockets s x) \<longrightarrow>
      (\<exists>msg. ev = Message x (Parsed msg) \<and>
         (get_prop ''type'' msg = Some (JStr ''create_game'') \<or>
          get_prop ''type'' msg = Some (JStr ''join_game''))))"
proof -
  have A: "chessRole (sockets (createGame E e c s) c)
             = Some \<lparr>gameId = generateGameId (random e), color = W\<rparr>"
    by (simp add: sockets_createGame)
  have B: "\<forall>g game. games s g = Some game \<and> b (players game) = None \<longrightarrow>
      chessRole (sockets (joinGame E c (Some (JStr g)) s) c) = Some \<lparr>gameId = g, color = B\<rparr>"
    by (simp add: joinGame_def sockets_joined)
  have C: "\<forall>g game. games s g = Some game \<and> b (players game) \<noteq> None \<and> w (players game) = None \<longrightarrow>
      chessRole (sockets (joinGame E c (Some (JStr g)) s) c) = Some \<lparr>gameId = g, color = W\<rparr>"
    by (auto simp add: joinGame_def sockets_joined)
  have D: "games_get s gid = None \<or>
    (\<exists>g game. games_get s gid = Some (g, game) \<and>
               b (players game) \<noteq> None \<and> w (players game) \<noteq> None) \<longrightarrow>
      sockets (joinGame E c gid s) = sockets s"
    using sockets_joinGame_failed[of s gid E c] by blast
  have F: "\<forall>ev s' x. step E e ev s = Some s' \<and> chessRole (sockets s' x) \<noteq> chessRole (sockets s x) \<longrightarrow>
      (\<exists>msg. ev = Message x (Parsed msg) \<and>
         (get_prop ''type'' msg = Some (JStr ''create_game'') \<or>
          get_prop ''type'' msg = Some (JStr ''join_game'')))"
    using step_rebinds[of E e _ s] by blast
  from A B C D F show ?thesis by (intro conjI)
qed

theorem role_binding_rebinds_witness:
  "games lobby ''AAAAAA'' = Some \<lparr>chess = 0, players = \<lparr>w = Some 0, b = None\<rparr>, createdAt = 0\<rparr> \<and>
   chessRole (sockets (joinGame toy_engine 1 (Some (JStr ''AAAAAA'')) lobby) 1)
     = Some \<lparr>gameId = ''AAAAAA'', color = B\<rparr> \<and>
   games vacated ''AAAAAA'' = Some \<lparr>chess = 0, players = \<lparr>w = None, b = Some 1\<rparr>, createdAt = 0\<rparr> \<and>
   chessRole (sockets (joinGame toy_engine 2 (Some (JStr ''AAAAAA'')) vacated) 2)
     = Some \<lparr>gameId = ''AAAAAA'', color = W\<rparr> \<and>
   games_get paired (Some (JStr ''CCCCCC'')) = None \<and>
   sockets (joinGame toy_engine 2 (Some (JStr ''CCCCCC'')) paired) = sockets paired \<and>
   step toy_engine (env_const 0) (Message 1 (join_game ''AAAAAA'')) lobby = Some paired \<and>
   chessRole (sockets lobby 1) = None \<and>
   chessRole (sockets paired 1) = Some \<lparr>gameId = ''AAAAAA'', color = B\<rparr> \<and>
   get_prop ''type'' (JObj [(''type'', JStr ''join_game''), (''gameId'', JStr ''AAAAAA'')])
     = Some (JStr ''join_game'')"
proof -
  note t1 = role_binding_rebinds[of toy_engine "env_const 0" 1 lobby None]
  note t2 = role_binding_rebinds[of toy_engine "env_const 0" 2 vacated None]
  note t3 = role_binding_rebinds[of toy_engine "env_const 0" 2 paired "Some (JStr ''CCCCCC'')"]
  have n: "games_get paired (Some (JStr ''CCCCCC'')) = None" by code_simp
  have u: "chessRole (sockets lobby 1) = None" by code_simp
  have st: "step toy_engine (env_const 0) (Message 1 (join_game ''AAAAAA'')) lobby = Some paired"
    by (rule run_last[OF run_lobby run_paired[unfolded trace_paired_def]])
  from t1 lobby_game
  have a: "chessRole (sockets (joinGame toy_engine 1 (Some (JStr ''AAAAAA'')) lobby) 1)
             = Some \<lparr>gameId = ''AAAAAA'', color = B\<rparr>"
    by simp
  from t2 vacated_game
  have b: "chessRole (sockets (joinGame toy_engine 2 (Some (JStr ''AAAAAA'')) vacated) 2)
             = Some \<lparr>gameId = ''AAAAAA'', color = W\<rparr>"
    by simp
  from t3 n have c: "sockets (joinGame toy_engine 2 (Some (JStr ''CCCCCC'')) paired) = sockets paired"
    by blast
  from t1 st u paired_role_1
  have "\<exists>msg. Message 1 (join_game ''AAAAAA'') = Message 1 (Parsed msg) \<and>
          (get_prop ''type'' msg = Some (JStr ''create_game'') \<or>
           get_prop ''type'' msg = Some (JStr ''join_game''))"
    by (metis option.distinct(1))
  then have d: "get_prop ''type'' (JObj [(''type'', JStr ''join_game''), (''gameId'', JStr ''AAAAAA'')])
                  = Some (JStr ''join_game'')"
    by (auto simp add: join_game_def)
  from lobby_game vacated_game n u st paired_role_1 a b c d show ?thesis by blast
qed

text \<open>
  C2, as stated, fails: in \<open>paired\<close> connection 0 is bound to \<open>(AAAAAA, w)\<close>; it sends
  \<open>create_game\<close> again, the draws give \<open>BBBBBB\<close>, and its binding is now \<open>(BBBBBB, w)\<close>.
\<close>

theorem createGame_replaces_binding:
  "run toy_engine trace_paired init = Some paired \<and>
   chessRole (sockets paired 0) = Some \<lparr>gameId = ''AAAAAA'', color = W\<rparr> \<and>
   step toy_engine (env_const 1) (Message 0 create_game) paired = Some rebound \<and>
   chessRole (sockets rebound 0) = Some \<lparr>gameId = ''BBBBBB'', color = W\<rparr>"
proof -
  have st: "step toy_engine (env_const 1) (Message 0 create_game) paired = Some rebound"
    by (rule run_last[OF run_paired run_rebound[unfolded trace_rebound_def]])
  have r: "chessRole (sockets rebound 0) = Some \<lparr>gameId = ''BBBBBB'', color = W\<rparr>"
    by code_simp
  from run_paired paired_role_0 st r show ?thesis by blast
qed

subsection \<open>The life of a session\<close>

text \<open>The handlers other than \<open>cleanupConnection\<close> never remove a key of the map.\<close>

lemma games_joinGame_keeps: "games (joinGame E c gid s) g = None \<Longrightarrow> games s g = None"
  by (auto simp add: joinGame_def games_joined split: option.splits prod.splits if_splits)

lemma games_handleMove_keeps:
  "games (handleMove E c gid f t p s) g = None \<Longrightarrow> games s g = None"
  by (auto simp add: handleMove_def Let_def
           split: option.splits prod.splits move_result.splits if_splits)

lemma on_message_keeps:
  assumes "on_message E e c d s = Inr s'" and "games s' g = None"
  shows "games s g = None"
proof (cases d)
  case SyntaxError
  with assms show ?thesis by (auto simp add: on_message_def)
next
  case (Parsed msg)
  with assms show ?thesis
    by (auto simp add: on_message_def Let_def games_createGame
          dest: games_joinGame_keeps games_handleMove_keeps split: if_splits)
qed

text \<open>Every stored session has a seat taken: the invariant and its preservation.\<close>

lemma seated_createGame: "seated s \<Longrightarrow> seated (createGame E e c s)"
  by (simp add: seated_def games_createGame)

lemma seated_joinGame: "seated s \<Longrightarrow> seated (joinGame E c gid s)"
  by (auto simp add: seated_def joinGame_def games_joined games_get_Some set_slot_def
           split: option.splits prod.splits if_splits)

lemma seated_handleMove: "seated s \<Longrightarrow> seated (handleMove E c gid f t p s)"
  by (auto simp add: seated_def handleMove_def Let_def games_get_Some
           split: option.splits prod.splits if_splits move_result.splits)

lemma seated_cleanupConnection: "seated s \<Longrightarrow> seated (cleanupConnection c s)"
  by (auto simp add: seated_def cleanupConnection_def Let_def split: option.splits if_splits)

lemma seated_safeSend: "seated (safeSend x p s) = seated s"
  by (simp add: seated_def)

lemma seated_on_message: "seated s \<Longrightarrow> on_message E e c d s = Inr s' \<Longrightarrow> seated s'"
  by (auto simp add: on_message_def Let_def seated_safeSend seated_createGame seated_joinGame
        seated_handleMove split: data.splits if_splits)

lemma seated_step:
  assumes "seated s" and "step E e ev s = Some s'"
  shows "seated s'"
proof (cases ev)
  case (Connection c)
  with assms(2) have "games s' = games s" by (auto split: if_splits)
  with assms(1) show ?thesis by (simp add: seated_def)
next
  case (Message c d)
  with assms show ?thesis
    by (auto split: if_splits sum.splits dest: seated_on_message)
next
  case (Closing c)
  with assms(2) have "games s' = games s" by (auto split: if_splits)
  with assms(1) show ?thesis by (simp add: seated_def)
next
  case (Close c)
  from assms(1) have "seated (set_readyState c CLOSED s)" by (simp add: seated_def)
  with assms(2) Close show ?thesis
    by (auto simp add: on_close_def seated_cleanupConnection split: if_splits)
qed

lemma reachable_seated: "reachable E s \<Longrightarrow> seated s"
proof (induction rule: reachable.induct)
  case reachable_init
  show ?case by (simp add: seated_def init_def)
next
  case (reachable_step s e ev s')
  then show ?case by (blast intro: seated_step)
qed

text \<open>What one \<open>close\<close> event does to the session its connection is bound to.\<close>

lemma games_step_Close:
  "step E e (Close c) s = Some s1 \<Longrightarrow> games s1 = games (cleanupConnection c s)"
  by (auto simp add: on_close_def cleanupConnection_def Let_def split: if_splits option.splits)

lemma chessRole_step_Close:
  "step E e (Close c) s = Some s1 \<Longrightarrow> chessRole (sockets s1 x) = chessRole (sockets s x)"
  by (auto simp add: on_close_def sockets_cleanupConnection split: if_splits)

lemma cleanupConnection_bound:
  assumes "games s g = Some game"
      and "chessRole (sockets s c) = Some \<lparr>gameId = g, color = col\<rparr>"
      and "slot col (players game) = Some c"
  shows "games (cleanupConnection c s) g =
           (if slot (opposite col) (players game) = None then None
            else Some (game\<lparr>players := set_slot col None (players game)\<rparr>))"
  using assms
  by (cases col) (auto simp add: cleanupConnection_def Let_def slot_def set_slot_def opposite_def)

lemma cleanupConnection_deletes:
  assumes "games s g = Some game"
      and "games (cleanupConnection c s) g = None"
      and "w (players game) \<noteq> None \<or> b (players game) \<noteq> None"
  shows "\<exists>r. chessRole (sockets s c) = Some r \<and> gameId r = g \<and>
             slot (color r) (players game) = Some c \<and>
             slot (opposite (color r)) (players game) = None"
proof (cases "chessRole (sockets s c)")
  case None
  with assms show ?thesis by (simp add: cleanupConnection_def)
next
  case (Some r)
  show ?thesis
  proof (cases "gameId r = g")
    case False
    with assms Some show ?thesis
      by (auto simp add: cleanupConnection_def Let_def split: option.splits if_splits)
  next
    case True
    with assms Some show ?thesis
      by (cases "color r")
         (auto simp add: cleanupConnection_def Let_def slot_def set_slot_def opposite_def
               split: if_splits)
  qed
qed

lemma step_deletes:
  assumes "seated s" and "step E e ev s = Some s'"
      and "games s g = Some game" and "games s' g = None"
  shows "\<exists>c r. ev = Close c \<and> chessRole (sockets s c) = Some r \<and> gameId r = g \<and>
               slot (color r) (players game) = Some c \<and>
               slot (opposite (color r)) (players game) = None"
proof (cases ev)
  case (Connection c)
  with assms show ?thesis by (auto split: if_splits)
next
  case (Message c d)
  with assms(2) have "on_message E e c d s = Inr s'" by (auto split: if_splits sum.splits)
  from on_message_keeps[OF this assms(4)] assms(3) show ?thesis by simp
next
  case (Closing c)
  with assms show ?thesis by (auto split: if_splits)
next
  case (Close c)
  from assms(2)[unfolded Close] have "games s' = games (cleanupConnection c s)"
    by (rule games_step_Close)
  with assms(4) have "games (cleanupConnection c s) g = None" by simp
  moreover from assms(1,3) have "w (players game) \<noteq> None \<or> b (players game) \<noteq> None"
    by (simp add: seated_def)
  ultimately show ?thesis using cleanupConnection_deletes[OF assms(3)] Close by blast
qed

lemma step_Close_bound:
  assumes "games s g = Some game"
      and "chessRole (sockets s c) = Some \<lparr>gameId = g, color = col\<rparr>"
      and "slot col (players game) = Some c"
      and "step E e (Close c) s = Some s1"
  shows "games s1 g =
           (if slot (opposite col) (players game) = None then None
            else Some (game\<lparr>players := set_slot col None (players game)\<rparr>))"
  using games_step_Close[OF assms(4)] cleanupConnection_bound[OF assms(1-3)] by simp

lemma two_closes:
  assumes "games s g = Some game"
      and "slot col (players game) = Some x" and "slot (opposite col) (players game) = Some y"
      and "chessRole (sockets s x) = Some \<lparr>gameId = g, color = col\<rparr>"
      and "chessRole (sockets s y) = Some \<lparr>gameId = g, color = opposite col\<rparr>"
      and "step E e1 (Close x) s = Some s1" and "step E e2 (Close y) s1 = Some s2"
  shows "games s2 g = None"
proof -
  let ?game1 = "game\<lparr>players := set_slot col None (players game)\<rparr>"
  from step_Close_bound[OF assms(1,4,2,6)] assms(3)
  have g1: "games s1 g = Some ?game1" by simp
  from assms(5) chessRole_step_Close[OF assms(6)]
  have r1: "chessRole (sockets s1 y) = Some \<lparr>gameId = g, color = opposite col\<rparr>" by simp
  from assms(3) have sl: "slot (opposite col) (players ?game1) = Some y"
    by (cases col) (simp_all add: slot_def set_slot_def opposite_def)
  have em: "slot (opposite (opposite col)) (players ?game1) = None"
    by (cases col) (simp_all add: slot_def set_slot_def opposite_def)
  from step_Close_bound[OF g1 r1 sl assms(7)] em show ?thesis by simp
qed

lemma joinGame_not_found:
  "games s g = None \<Longrightarrow>
   joinGame E c (Some (JStr g)) s = safeSend (Some c) (Error ''Game not found'') s"
  by (simp add: joinGame_def)

subsection \<open>Closing again\<close>

lemma cleanupConnection_elsewhere:
  assumes "seated s"
      and "chessRole (sockets s c) = Some r"
      and "games s (gameId r) = Some game"
      and "slot (color r) (players game) \<noteq> Some c"
  shows "cleanupConnection c s = s"
proof -
  from assms(1,3) have "\<not> (w (players game) = None \<and> b (players game) = None)"
    by (simp add: seated_def)
  with assms(2-4) show ?thesis
    by (auto simp add: cleanupConnection_def Let_def map_upd_triv)
qed

text \<open>
  C9. The \<open>close\<close> listener on a connection that carries no binding returns the state it
  was given. A repeated \<open>close\<close> for a connection whose cleanup already ran changes
  nothing: when the bound session is no longer stored the listener returns the state it
  was given; when, in a reachable state, the session is still stored but the bound seat
  slot does not point at this connection (it is empty or holds a newer connection) the
  listener returns the state it was given, so the newer occupant stays; and in any state
  running the listener twice gives what running it once gives. The listener has no
  failing branch.
\<close>

theorem on_close_idempotent:
  "(chessRole (sockets s c) = None \<longrightarrow> on_close c s = s) \<and>
   (\<forall>r. chessRole (sockets s c) = Some r \<and> games s (gameId r) = None \<longrightarrow> on_close c s = s) \<and>
   (\<forall>E r game. reachable E s \<and> chessRole (sockets s c) = Some r \<and>
        games s (gameId r) = Some game \<and> slot (color r) (players game) \<noteq> Some c \<longrightarrow>
        on_close c s = s) \<and>
   on_close c (on_close c s) = on_close c s"
proof -
  have A: "chessRole (sockets s c) = None \<longrightarrow> on_close c s = s"
    by (simp add: on_close_def cleanupConnection_unbound)
  have B: "\<forall>r. chessRole (sockets s c) = Some r \<and> games s (gameId r) = None \<longrightarrow> on_close c s = s"
    by (simp add: on_close_def cleanupConnection_gone)
  have C: "\<forall>E r game. reachable E s \<and> chessRole (sockets s c) = Some r \<and>
        games s (gameId r) = Some game \<and> slot (color r) (players game) \<noteq> Some c \<longrightarrow>
        on_close c s = s"
  proof (intro allI impI, elim conjE)
    fix E :: "('a, 'b) engine" and r game
    assume h: "reachable E s" "chessRole (sockets s c) = Some r"
      "games s (gameId r) = Some game" "slot (color r) (players game) \<noteq> Some c"
    from h(1) have "seated s" by (rule reachable_seated)
    from this h(2-4) have "cleanupConnection c s = s" by (rule cleanupConnection_elsewhere)
    then show "on_close c s = s" by (simp add: on_close_def)
  qed
  have D: "on_close c (on_close c s) = on_close c s"
    by (simp add: on_close_def cleanupConnection_twice)
  from A B C D show ?thesis by (intro conjI)
qed

theorem on_close_idempotent_witness:
  "chessRole (sockets paired 2) = None \<and> on_close 2 paired = paired \<and>
   chessRole (sockets stale 0) = Some \<lparr>gameId = ''BBBBBB'', color = W\<rparr> \<and>
   games stale ''BBBBBB'' = None \<and> on_close 0 stale = stale \<and>
   reachable toy_engine reseated \<and>
   chessRole (sockets reseated 0) = Some \<lparr>gameId = ''AAAAAA'', color = W\<rparr> \<and>
   games reseated ''AAAAAA''
     = Some \<lparr>chess = 0, players = \<lparr>w = Some 2, b = Some 1\<rparr>, createdAt = 0\<rparr> \<and>
   on_close 0 reseated = reseated \<and>
   on_close 1 (on_close 1 paired) = on_close 1 paired"
proof -
  have u: "chessRole (sockets paired 2) = None" by code_simp
  have r: "chessRole (sockets stale 0) = Some \<lparr>gameId = ''BBBBBB'', color = W\<rparr>" by code_simp
  have g: "games stale ''BBBBBB'' = None" by code_simp
  have rr: "reachable toy_engine reseated"
    using reachable_init run_reseated by (rule run_reachable)
  have r2: "chessRole (sockets reseated 0) = Some \<lparr>gameId = ''AAAAAA'', color = W\<rparr>"
    by code_simp
  have g2: "games reseated ''AAAAAA''
              = Some \<lparr>chess = 0, players = \<lparr>w = Some 2, b = Some 1\<rparr>, createdAt = 0\<rparr>"
    by code_simp
  have sl: "slot W \<lparr>w = Some 2, b = Some 1\<rparr> \<noteq> Some 0" by (simp add: slot_def)
  note t1 = on_close_idempotent[of paired 2]
  note t2 = on_close_idempotent[of stale 0]
  note t3 = on_close_idempotent[of reseated 0, THEN conjunct2, THEN conjunct2, THEN conjunct1,
              rule_format, where E = toy_engine]
  note t4 = on_close_idempotent[of paired 1]
  from t1 u have a: "on_close 2 paired = paired" by blast
  from t2 r g have b: "on_close 0 stale = stale" by simp
  from t3 rr r2 g2 sl have c: "on_close 0 reseated = reseated" by simp
  from t4 have d: "on_close 1 (on_close 1 paired) = on_close 1 paired" by blast
  from u a r g b rr r2 g2 c d show ?thesis by (intro conjI)
qed

subsection \<open>What holds of the life of a session\<close>

text \<open>
  In every reachable state each stored session has a seat taken. A key of the map
  disappears across an event only when the event is the \<open>close\<close> of a connection whose
  binding names that key, whose bound slot holds it and whose other slot is empty. The
  \<open>close\<close> of a connection whose binding names a stored session and whose bound slot holds
  it deletes the session when the other slot is empty, and otherwise only empties that
  slot. So when both slots are held by connections bound to this session and to their
  seats, after the two close one after the other, in either order, the key is gone and a
  later \<open>joinGame\<close> on it answers \<open>Game not found\<close>.
\<close>

lemma registry_lifecycle:
  assumes "reachable E s"
  shows "(\<forall>g game. games s g = Some game \<longrightarrow>
            w (players game) \<noteq> None \<or> b (players game) \<noteq> None) \<and>
         (\<forall>e ev s' g game.
            step E e ev s = Some s' \<and> games s g = Some game \<and> games s' g = None \<longrightarrow>
            (\<exists>c r. ev = Close c \<and> chessRole (sockets s c) = Some r \<and> gameId r = g \<and>
                   slot (color r) (players game) = Some c \<and>
                   slot (opposite (color r)) (players game) = None)) \<and>
         (\<forall>e g game c col s1.
            games s g = Some game \<and> chessRole (sockets s c) = Some \<lparr>gameId = g, color = col\<rparr> \<and>
            slot col (players game) = Some c \<and> step E e (Close c) s = Some s1 \<longrightarrow>
            games s1 g =
              (if slot (opposite col) (players game) = None then None
               else Some (game\<lparr>players := set_slot col None (players game)\<rparr>))) \<and>
         (\<forall>g game col x y e1 e2 s1 s2 c.
            games s g = Some game \<and>
            slot col (players game) = Some x \<and> slot (opposite col) (players game) = Some y \<and>
            chessRole (sockets s x) = Some \<lparr>gameId = g, color = col\<rparr> \<and>
            chessRole (sockets s y) = Some \<lparr>gameId = g, color = opposite col\<rparr> \<and>
            step E e1 (Close x) s = Some s1 \<and> step E e2 (Close y) s1 = Some s2 \<longrightarrow>
            games s2 g = None \<and>
            joinGame E c (Some (JStr g)) s2 = safeSend (Some c) (Error ''Game not found'') s2)"
proof -
  from assms have inv: "seated s" by (rule reachable_seated)
  then have A: "\<forall>g game. games s g = Some game \<longrightarrow>
                  w (players game) \<noteq> None \<or> b (players game) \<noteq> None"
    by (simp add: seated_def)
  have B: "\<forall>e ev s' g game.
            step E e ev s = Some s' \<and> games s g = Some game \<and> games s' g = None \<longrightarrow>
            (\<exists>c r. ev = Close c \<and> chessRole (sockets s c) = Some r \<and> gameId r = g \<and>
                   slot (color r) (players game) = Some c \<and>
                   slot (opposite (color r)) (players game) = None)"
    using step_deletes[OF inv] by blast
  have C: "\<forall>e g game c col s1.
            games s g = Some game \<and> chessRole (sockets s c) = Some \<lparr>gameId = g, color = col\<rparr> \<and>
            slot col (players game) = Some c \<and> step E e (Close c) s = Some s1 \<longrightarrow>
            games s1 g =
              (if slot (opposite col) (players game) = None then None
               else Some (game\<lparr>players := set_slot col None (players game)\<rparr>))"
    using step_Close_bound[of s] by blast
  have D: "\<forall>g game col x y e1 e2 s1 s2 c.
            games s g = Some game \<and>
            slot col (players game) = Some x \<and> slot (opposite col) (players game) = Some y \<and>
            chessRole (sockets s x) = Some \<lparr>gameId = g, color = col\<rparr> \<and>
            chessRole (sockets s y) = Some \<lparr>gameId = g, color = opposite col\<rparr> \<and>
            step E e1 (Close x) s = Some s1 \<and> step E e2 (Close y) s1 = Some s2 \<longrightarrow>
            games s2 g = None \<and>
            joinGame E c (Some (JStr g)) s2 = safeSend (Some c) (Error ''Game not found'') s2"
  proof (intro allI impI, elim conjE)
    fix g game col x y e1 e2 s1 s2 c
    assume h: "games s g = Some game"
      "slot col (players game) = Some x" "slot (opposite col) (players game) = Some y"
      "chessRole (sockets s x) = Some \<lparr>gameId = g, color = col\<rparr>"
      "chessRole (sockets s y) = Some \<lparr>gameId = g, color = opposite col\<rparr>"
      "step E e1 (Close x) s = Some s1" "step E e2 (Close y) s1 = Some s2"
    then have "games s2 g = None" by (rule two_closes)
    then show "games s2 g = None \<and>
       joinGame E c (Some (JStr g)) s2 = safeSend (Some c) (Error ''Game not found'') s2"
      by (simp add: joinGame_not_found)
  qed
  from A B C D show ?thesis by (intro conjI)
qed

lemma registry_lifecycle_example:
  "reachable toy_engine paired \<and>
   games paired ''AAAAAA'' = Some \<lparr>chess = 0, players = \<lparr>w = Some 0, b = Some 1\<rparr>, createdAt = 0\<rparr> \<and>
   chessRole (sockets paired 0) = Some \<lparr>gameId = ''AAAAAA'', color = W\<rparr> \<and>
   chessRole (sockets paired 1) = Some \<lparr>gameId = ''AAAAAA'', color = B\<rparr> \<and>
   step toy_engine (env_const 0) (Close 0) paired = Some vacated \<and>
   games vacated ''AAAAAA'' = Some \<lparr>chess = 0, players = \<lparr>w = None, b = Some 1\<rparr>, createdAt = 0\<rparr> \<and>
   step toy_engine (env_const 0) (Close 1) vacated = Some emptied \<and>
   games emptied ''AAAAAA'' = None \<and>
   joinGame toy_engine 2 (Some (JStr ''AAAAAA'')) emptied
     = safeSend (Some 2) (Error ''Game not found'') emptied \<and>
   step toy_engine (env_const 0) (Close 1) paired = Some black_left \<and>
   step toy_engine (env_const 0) (Close 0) black_left = Some emptied_rev \<and>
   games emptied_rev ''AAAAAA'' = None \<and>
   reachable toy_engine vacated \<and>
   (\<exists>r. chessRole (sockets vacated 1) = Some r \<and> gameId r = ''AAAAAA'')"
proof -
  have rp: "reachable toy_engine paired"
    using reachable_init run_paired by (rule run_reachable)
  have rv: "reachable toy_engine vacated"
    using reachable_init run_vacated by (rule run_reachable)
  have s1: "step toy_engine (env_const 0) (Close 0) paired = Some vacated"
    by (rule run_last[OF run_paired run_vacated[unfolded trace_vacated_def]])
  have s2: "step toy_engine (env_const 0) (Close 1) vacated = Some emptied"
    by (rule run_last[OF run_vacated run_emptied[unfolded trace_emptied_def]])
  have s3: "step toy_engine (env_const 0) (Close 1) paired = Some black_left"
    by (rule run_last[OF run_paired run_black_left[unfolded trace_black_left_def]])
  have s4: "step toy_engine (env_const 0) (Close 0) black_left = Some emptied_rev"
    by (rule run_last[OF run_black_left run_emptied_rev[unfolded trace_emptied_rev_def]])
  have pl: "slot W \<lparr>w = Some 0, b = Some 1\<rparr> = Some 0" "slot B \<lparr>w = Some 0, b = Some 1\<rparr> = Some 1"
           "opposite W = B" "opposite B = W"
    by (simp_all add: slot_def opposite_def)
  note t = registry_lifecycle[OF rp]
  note one_close = t[THEN conjunct2, THEN conjunct2, THEN conjunct1, rule_format]
  note both_close = t[THEN conjunct2, THEN conjunct2, THEN conjunct2, rule_format]
  note deleted_by = registry_lifecycle[OF rv, THEN conjunct2, THEN conjunct1, rule_format]
  have v: "games vacated ''AAAAAA''
             = Some \<lparr>chess = 0, players = \<lparr>w = None, b = Some 1\<rparr>, createdAt = 0\<rparr>"
    using one_close[where g = "''AAAAAA''" and c = 0 and col = W and e = "env_const 0"
                      and ?s1.0 = vacated] paired_game paired_role_0 s1 pl
    by (simp add: set_slot_def)
  have e1: "games emptied ''AAAAAA'' = None \<and>
            joinGame toy_engine 2 (Some (JStr ''AAAAAA'')) emptied
              = safeSend (Some 2) (Error ''Game not found'') emptied"
    using both_close[where g = "''AAAAAA''" and col = W and x = 0 and y = 1
                       and ?e1.0 = "env_const 0" and ?e2.0 = "env_const 0"
                       and ?s1.0 = vacated and ?s2.0 = emptied and c = 2]
          paired_game paired_role_0 paired_role_1 s1 s2 pl
    by simp
  have e2: "games emptied_rev ''AAAAAA'' = None"
    using both_close[where g = "''AAAAAA''" and col = B and x = 1 and y = 0
                       and ?e1.0 = "env_const 0" and ?e2.0 = "env_const 0"
                       and ?s1.0 = black_left and ?s2.0 = emptied_rev and c = 2]
          paired_game paired_role_0 paired_role_1 s3 s4 pl
    by simp
  have "\<exists>c r. Close 1 = Close c \<and> chessRole (sockets vacated c) = Some r \<and> gameId r = ''AAAAAA'' \<and>
          slot (color r) (players \<lparr>chess = 0, players = \<lparr>w = None, b = Some 1\<rparr>, createdAt = 0\<rparr>)
            = Some c \<and>
          slot (opposite (color r))
            (players \<lparr>chess = 0, players = \<lparr>w = None, b = Some 1\<rparr>, createdAt = 0\<rparr>) = None"
    using deleted_by[where e = "env_const 0" and ev = "Close 1" and s' = emptied
                       and g = "''AAAAAA''"] s2 v e1
    by simp
  then have d: "\<exists>r. chessRole (sockets vacated 1) = Some r \<and> gameId r = ''AAAAAA''"
    by auto
  from rp paired_game paired_role_0 paired_role_1 s1 v s2 e1 s3 s4 e2 rv d
  show ?thesis by (intro conjI) simp_all
qed

text \<open>
  C3. Once both players of a session have closed, the session should be gone from the map
  and a late \<open>join_game\<close> on its id should be told \<open>Game not found\<close>; the comments in
  \<open>cleanupConnection\<close> say as much (\<open>Clear this socket from players\<close>,
  \<open>If both players gone, delete game\<close>). On this run it is not so. Connection 0 creates
  \<open>AAAAAA\<close>, connection 1 joins it, connection 0 creates \<open>BBBBBB\<close> (its binding now names
  \<open>BBBBBB\<close>), then 0 closes and 1 closes. \<open>cleanupConnection\<close> looks only at the binding,
  so the close of connection 0 never visits \<open>AAAAAA\<close>: its \<open>w\<close> slot still holds the closed
  connection 0, the session is still stored, and connection 2 joining it is seated as \<open>b\<close>
  instead of being told \<open>Game not found\<close>.
\<close>

theorem stale_session_survives:
  "trace_stale =
     [(env_const 0, Connection 0), (env_const 0, Connection 1), (env_const 0, Connection 2),
      (env_const 0, Message 0 create_game),
      (env_const 0, Message 1 (join_game ''AAAAAA'')),
      (env_const 1, Message 0 create_game),
      (env_const 0, Close 0), (env_const 0, Close 1)] \<and>
   run toy_engine trace_stale init = Some stale \<and>
   readyState (sockets stale 0) = CLOSED \<and> readyState (sockets stale 1) = CLOSED \<and>
   games stale ''AAAAAA'' = Some \<lparr>chess = 0, players = \<lparr>w = Some 0, b = None\<rparr>, createdAt = 0\<rparr> \<and>
   chessRole (sockets stale 2) = None \<and>
   chessRole (sockets (joinGame toy_engine 2 (Some (JStr ''AAAAAA'')) stale) 2)
     = Some \<lparr>gameId = ''AAAAAA'', color = B\<rparr> \<and>
   joinGame toy_engine 2 (Some (JStr ''AAAAAA'')) stale
     \<noteq> safeSend (Some 2) (Error ''Game not found'') stale"
proof -
  have tr: "trace_stale =
     [(env_const 0, Connection 0), (env_const 0, Connection 1), (env_const 0, Connection 2),
      (env_const 0, Message 0 create_game),
      (env_const 0, Message 1 (join_game ''AAAAAA'')),
      (env_const 1, Message 0 create_game),
      (env_const 0, Close 0), (env_const 0, Close 1)]"
    by (simp add: trace_stale_def trace_rebound_def trace_paired_def trace_lobby_def)
  have c0: "readyState (sockets stale 0) = CLOSED" by code_simp
  have c1: "readyState (sockets stale 1) = CLOSED" by code_simp
  have g: "games stale ''AAAAAA''
             = Some \<lparr>chess = 0, players = \<lparr>w = Some 0, b = None\<rparr>, createdAt = 0\<rparr>"
    by code_simp
  have u: "chessRole (sockets stale 2) = None" by code_simp
  have j: "chessRole (sockets (joinGame toy_engine 2 (Some (JStr ''AAAAAA'')) stale) 2)
             = Some \<lparr>gameId = ''AAAAAA'', color = B\<rparr>"
    using g by (simp add: joinGame_def sockets_joined)
  have n: "joinGame toy_engine 2 (Some (JStr ''AAAAAA'')) stale
             \<noteq> safeSend (Some 2) (Error ''Game not found'') stale"
  proof
    assume "joinGame toy_engine 2 (Some (JStr ''AAAAAA'')) stale
              = safeSend (Some 2) (Error ''Game not found'') stale"
    then have "chessRole (sockets (joinGame toy_engine 2 (Some (JStr ''AAAAAA'')) stale) 2)
                 = chessRole (sockets stale 2)"
      by simp
    with j u show False by simp
  qed
  from tr run_stale c0 c1 g u j n show ?thesis by (intro conjI)
qed


end
